theory Spec2Isabelle
  imports
    Complex_Main
    "HOL-Library.AList"
    "HOL-Library.Multiset"
    "HOL-Library.Sublist"
    "HOL-Library.Char_ord"
    "HOL-Library.List_Lexorder"
begin

section \<open>Python values and built-ins used by the store and the query engine\<close>

text \<open>
  Python \<open>int\<close> is \<open>int\<close>. \<open>str\<close> is \<open>string\<close>: the UTF-8 bytes of the text, whose
  lexicographic order is the order of the code point sequences that Python compares.

  Python \<open>float\<close> is an IEEE 754 binary64 number. A value of type \<open>pyfloat\<close> is a rational
  \<open>q\<close> that stands for the double nearest to it, \<open>binary64 q\<close>, the way a decimal literal does
  in Python: \<open>2999 / 100\<close> is the float that Python prints as \<open>29.99\<close>. Arithmetic reads its
  operands through \<open>binary64\<close> and returns the correctly rounded result, itself a double.
  Infinities and NaN are not values of the model.
\<close>

type_synonym pyfloat = rat

text \<open>The nearest integer, a tie going to the even neighbour.\<close>

definition round_half_even :: "rat \<Rightarrow> int" where
  "round_half_even y =
     (let f = \<lfloor>y\<rfloor>; d = y - of_int f
      in if d < 1 / 2 then f
         else if 1 / 2 < d then f + 1
         else if even f then f else f + 1)"

text \<open>\<open>floor_log2 n\<close> is the largest \<open>k\<close> with \<open>2 ^ k \<le> n\<close>, for \<open>n \<ge> 1\<close>.\<close>

fun floor_log2 :: "nat \<Rightarrow> nat" where
  "floor_log2 n = (if n < 2 then 0 else Suc (floor_log2 (n div 2)))"

text \<open>The exponent \<open>e\<close> of a non-zero rational: \<open>2 ^ e \<le> |x| < 2 ^ (e + 1)\<close>.\<close>

definition binary_exponent :: "rat \<Rightarrow> int" where
  "binary_exponent x =
     (let a = \<bar>x\<bar>
      in if 1 \<le> a then int (floor_log2 (nat \<lfloor>a\<rfloor>))
         else (let n = nat \<lceil>1 / a\<rceil>
               in if n \<le> 1 then 0 else - int (Suc (floor_log2 (n - 1)))))"

definition two_to :: "int \<Rightarrow> rat" where
  "two_to e = (if 0 \<le> e then 2 ^ nat e else 1 / 2 ^ nat (- e))"

text \<open>
  Rounding to binary64, round-to-nearest, ties to even: 53 significant bits, that is a multiple
  of \<open>2 ^ (e - 52)\<close>, the exponent not below -1022 (subnormal numbers keep the spacing
  \<open>2 ^ -1074\<close>).
\<close>

definition binary64 :: "rat \<Rightarrow> pyfloat" where
  "binary64 x =
     (if x = 0 then 0
      else (let e = max (binary_exponent x) (- 1022);
                ulp = two_to (e - 52)
            in of_int (round_half_even (x / ulp)) * ulp))"

text \<open>Float \<open>+\<close>, \<open>-\<close>, \<open>*\<close> and \<open>/\<close> (the divisor is not zero wherever the code divides).\<close>

definition py_add :: "pyfloat \<Rightarrow> pyfloat \<Rightarrow> pyfloat" where
  "py_add x y = binary64 (binary64 x + binary64 y)"

definition py_sub :: "pyfloat \<Rightarrow> pyfloat \<Rightarrow> pyfloat" where
  "py_sub x y = binary64 (binary64 x - binary64 y)"

definition py_mul :: "pyfloat \<Rightarrow> pyfloat \<Rightarrow> pyfloat" where
  "py_mul x y = binary64 (binary64 x * binary64 y)"

definition py_div :: "pyfloat \<Rightarrow> pyfloat \<Rightarrow> pyfloat" where
  "py_div x y = binary64 (binary64 x / binary64 y)"

text \<open>\<open>a / b\<close> on two \<open>int\<close>s: the exact quotient, correctly rounded.\<close>

definition py_int_truediv :: "int \<Rightarrow> int \<Rightarrow> pyfloat" where
  "py_int_truediv a b = binary64 (of_int a / of_int b)"

text \<open>
  \<open>round(x, 2)\<close> on a float: the exact value of the double is rounded to two decimals, a tie
  going to the even neighbour; the result is that two-decimal number (Python holds the double
  nearest to it).
\<close>

definition py_round2 :: "pyfloat \<Rightarrow> pyfloat" where
  "py_round2 x = of_int (round_half_even (binary64 x * 100)) / 100"

text \<open>
  Slice bounds: \<open>xs[start:stop]\<close> with integer bounds. A negative bound counts from the end
  and is clamped at 0, a bound past the end is clamped at \<open>len(xs)\<close>; a slice whose start is
  not before its stop is empty. Slicing never raises.
\<close>

definition py_slice_index :: "nat \<Rightarrow> int \<Rightarrow> nat" where
  "py_slice_index n i = (if i < 0 then nat (max 0 (int n + i)) else min n (nat i))"

definition py_slice :: "'a list \<Rightarrow> int \<Rightarrow> int \<Rightarrow> 'a list" where
  "py_slice xs start stop =
     (let s = py_slice_index (length xs) start; e = py_slice_index (length xs) stop
      in take (e - s) (drop s xs))"

text \<open>\<open>xs[:stop]\<close>\<close>

definition py_slice_to :: "'a list \<Rightarrow> int \<Rightarrow> 'a list" where
  "py_slice_to xs stop = take (py_slice_index (length xs) stop) xs"

text \<open>
  \<open>sorted(xs, key=k, reverse=r)\<close> and \<open>xs.sort(key=k, reverse=r)\<close>: a stable sort on the
  key. With \<open>reverse=True\<close> CPython reverses the list, sorts it stably in ascending order and
  reverses the result, which keeps equal keys in their original order.
\<close>

definition py_sorted :: "('a \<Rightarrow> 'k::linorder) \<Rightarrow> bool \<Rightarrow> 'a list \<Rightarrow> 'a list" where
  "py_sorted k reverse xs = (if reverse then rev (sort_key k (rev xs)) else sort_key k xs)"

text \<open>An exception raised by the interpreter.\<close>

datatype py_error = TypeError

section \<open>Pagination stage (routers/products.py)\<close>

record 'a page_result =
  items :: "'a list"
  total_items :: int
  page :: int
  page_size :: int
  total_pages :: int
  has_next :: bool
  has_previous :: bool

definition paginate :: "'a list \<Rightarrow> int \<Rightarrow> int \<Rightarrow> 'a page_result" where
  "paginate its pg pg_size =
     (let total = int (length its);
          tp = (if pg_size > 0 then (total + pg_size - 1) div pg_size else 1);
          start = (pg - 1) * pg_size;
          end = start + pg_size
      in \<lparr> items = py_slice its start end,
           total_items = total,
           page = pg,
           page_size = pg_size,
           total_pages = tp,
           has_next = (pg < tp),
           has_previous = (pg > 1) \<rparr>)"

section \<open>Entity store (database/memory_db.py)\<close>

text \<open>
  A product is the dict built by \<open>create_product\<close>: the caller's \<open>product_data\<close> (the
  \<open>ProductCreate\<close> fields plus \<open>seller_id\<close>) extended with the generated fields. The key
  \<open>"id"\<close> is the field \<open>ident\<close>. The value under \<open>"price"\<close> is a number or Python's \<open>None\<close>
  (\<open>ProductCreate\<close> always sends a number; \<open>ProductUpdate\<close> admits an explicit null); no query
  reads it, the store reads it to compute the final price. The other fields hold values of
  their declared type.
\<close>

record product_data =
  name :: string
  description :: string
  category_id :: int
  seller_id :: int
  price :: "pyfloat option"
  discount_percentage :: pyfloat
  stock_status :: string
  features :: "(string \<times> string) list"
  images :: "string list"

record product = product_data +
  ident :: int
  created_at :: string
  updated_at :: string
  average_rating :: pyfloat
  review_count :: int
  final_price :: pyfloat

text \<open>
  The partial dict handed to \<open>update_product\<close> (the \<open>ProductUpdate\<close> fields that were sent,
  \<open>model_dump(exclude_unset=True)\<close>): \<open>None\<close> is a key that is absent. For the price,
  \<open>Some None\<close> is the key sent with an explicit null and \<open>Some (Some v)\<close> the key sent with the
  number \<open>v\<close>. A null for another key is outside the model: the other record fields are typed.
\<close>

record product_update =
  name_upd :: "string option"
  description_upd :: "string option"
  category_id_upd :: "int option"
  price_upd :: "pyfloat option option"
  discount_percentage_upd :: "pyfloat option"
  stock_status_upd :: "string option"
  features_upd :: "(string \<times> string) list option"
  images_upd :: "string list option"

record review_data =
  product_id :: int
  user_id :: int
  rating :: int
  title :: string
  comment :: string
  pros :: "string list"
  cons :: "string list"

record review = review_data +
  review_ident :: int
  review_created_at :: string
  helpful_count :: int

text \<open>
  The two dicts of the store that the operations below touch, with their counters. A Python
  dict keeps insertion order: it is an association list, \<open>d[k] = v\<close> is \<open>AList.update\<close>
  (replace in place, or append a new key), \<open>del d[k]\<close> is \<open>AList.delete\<close>, \<open>d.get(k)\<close> is
  \<open>map_of\<close> and \<open>d.values()\<close> is \<open>map snd\<close>.
\<close>

record database =
  products :: "(int \<times> product) list"
  reviews :: "(int \<times> review) list"
  product_counter :: int
  review_counter :: int

definition empty_db :: database where
  "empty_db = \<lparr> products = [], reviews = [], product_counter = 0, review_counter = 0 \<rparr>"

definition get_all_products :: "database \<Rightarrow> product list" where
  "get_all_products db = map snd (products db)"

definition get_product :: "database \<Rightarrow> int \<Rightarrow> product option" where
  "get_product db pid = map_of (products db) pid"

definition get_products_by_category :: "database \<Rightarrow> int \<Rightarrow> product list" where
  "get_products_by_category db cid = filter (\<lambda>p. category_id p = cid) (map snd (products db))"

text \<open>
  \<open>create_product\<close>; the two readings of the clock (\<open>datetime.now().isoformat()\<close>) are
  parameters. It returns the new product, or the exception that \<open>price * ...\<close> raises on
  \<open>None\<close>, and the store after the call: the counter is incremented before the product dict is
  built, the product is stored after the final price is computed.
\<close>

definition create_product ::
  "string \<Rightarrow> string \<Rightarrow> product_data \<Rightarrow> database \<Rightarrow> (py_error + product) \<times> database" where
  "create_product now1 now2 pd db =
     (let pid = product_counter db + 1;
          db1 = db\<lparr> product_counter := pid \<rparr>;
          discount = discount_percentage pd
      in case price pd of
           None \<Rightarrow> (Inl TypeError, db1)
         | Some pr \<Rightarrow>
             (let product =
                    \<lparr> name = name pd, description = description pd,
                      category_id = category_id pd, seller_id = seller_id pd,
                      price = Some pr, discount_percentage = discount_percentage pd,
                      stock_status = stock_status pd, features = features pd,
                      images = images pd,
                      ident = pid, created_at = now1, updated_at = now2,
                      average_rating = 0, review_count = 0,
                      final_price = py_round2 (py_mul pr (py_sub 1 (py_div discount 100))) \<rparr>
              in (Inr product,
                  db1\<lparr> products := AList.update pid product (products db1) \<rparr>)))"

text \<open>
  \<open>product.update(product_data)\<close>: only the keys that are sent are overwritten; a price sent
  as null is stored as \<open>None\<close>.
\<close>

definition dict_update :: "product_update \<Rightarrow> product \<Rightarrow> product" where
  "dict_update u p =
     p\<lparr> name := (case name_upd u of None \<Rightarrow> name p | Some v \<Rightarrow> v),
        description := (case description_upd u of None \<Rightarrow> description p | Some v \<Rightarrow> v),
        category_id := (case category_id_upd u of None \<Rightarrow> category_id p | Some v \<Rightarrow> v),
        price := (case price_upd u of None \<Rightarrow> price p | Some v \<Rightarrow> v),
        discount_percentage :=
          (case discount_percentage_upd u of None \<Rightarrow> discount_percentage p | Some v \<Rightarrow> v),
        stock_status := (case stock_status_upd u of None \<Rightarrow> stock_status p | Some v \<Rightarrow> v),
        features := (case features_upd u of None \<Rightarrow> features p | Some v \<Rightarrow> v),
        images := (case images_upd u of None \<Rightarrow> images p | Some v \<Rightarrow> v) \<rparr>"

text \<open>
  \<open>update_product\<close> mutates the stored dict in place: the merge and the new \<open>updated_at\<close> are
  in the store before the final price is computed. When the price is \<open>None\<close> the multiplication
  raises \<open>TypeError\<close> and the store keeps the merged dict with the old \<open>final_price\<close>.
\<close>

definition update_product ::
  "string \<Rightarrow> int \<Rightarrow> product_update \<Rightarrow> database
     \<Rightarrow> (py_error + product option) \<times> database" where
  "update_product now pid u db =
     (case map_of (products db) pid of
        None \<Rightarrow> (Inr None, db)
      | Some p0 \<Rightarrow>
          (let p1 = (dict_update u p0)\<lparr> updated_at := now \<rparr>;
               discount = discount_percentage p1
           in case price p1 of
                None \<Rightarrow> (Inl TypeError, db\<lparr> products := AList.update pid p1 (products db) \<rparr>)
              | Some pr \<Rightarrow>
                  (let p2 = p1\<lparr> final_price :=
                                   py_round2 (py_mul pr (py_sub 1 (py_div discount 100))) \<rparr>
                   in (Inr (Some p2),
                       db\<lparr> products := AList.update pid p2 (products db) \<rparr>))))"

definition delete_product :: "int \<Rightarrow> database \<Rightarrow> bool \<times> database" where
  "delete_product pid db =
     (if map_of (products db) pid \<noteq> None
      then (True, db\<lparr> products := AList.delete pid (products db),
                      reviews := filter (\<lambda>(k, v). product_id v \<noteq> pid) (reviews db) \<rparr>)
      else (False, db))"

definition update_product_rating :: "int \<Rightarrow> database \<Rightarrow> database" where
  "update_product_rating pid db =
     (case map_of (products db) pid of
        None \<Rightarrow> db
      | Some p \<Rightarrow>
          (let product_reviews = filter (\<lambda>r. product_id r = pid) (map snd (reviews db))
           in if product_reviews \<noteq> []
              then (let avg_rating = py_int_truediv (sum_list (map rating product_reviews))
                                       (int (length product_reviews))
                    in db\<lparr> products :=
                             AList.update pid
                               (p\<lparr> average_rating := py_round2 avg_rating,
                                   review_count := int (length product_reviews) \<rparr>)
                               (products db) \<rparr>)
              else db\<lparr> products :=
                        AList.update pid (p\<lparr> average_rating := 0, review_count := 0 \<rparr>)
                          (products db) \<rparr>))"

definition create_review :: "string \<Rightarrow> review_data \<Rightarrow> database \<Rightarrow> review \<times> database" where
  "create_review now rd db =
     (let rid = review_counter db + 1;
          rv = \<lparr> product_id = product_id rd, user_id = user_id rd, rating = rating rd,
                 title = title rd, comment = comment rd, pros = pros rd, cons = cons rd,
                 review_ident = rid, review_created_at = now, helpful_count = 0 \<rparr>;
          db1 = db\<lparr> review_counter := rid,
                     reviews := AList.update rid rv (reviews db) \<rparr>
      in (rv, update_product_rating (product_id rd) db1))"

text \<open>A sequence of review insertions and product deletions, run from left to right.\<close>

datatype store_op = Create_review string review_data | Delete_product int

fun run_op :: "store_op \<Rightarrow> database \<Rightarrow> database" where
  "run_op (Create_review now rd) db = snd (create_review now rd db)"
| "run_op (Delete_product pid) db = snd (delete_product pid db)"

fun run_ops :: "store_op list \<Rightarrow> database \<Rightarrow> database" where
  "run_ops [] db = db"
| "run_ops (opn # ops) db = run_ops ops (run_op opn db)"

text \<open>
  The aggregate a product should carry: the ratings of the reviews that reference the key
  \<open>pid\<close>, their mean (the float quotient of sum and count) rounded to two decimals by
  \<open>round\<close> (0 without reviews), and their number.
\<close>

definition ratings_of :: "database \<Rightarrow> int \<Rightarrow> int list" where
  "ratings_of db pid = map rating (filter (\<lambda>r. product_id r = pid) (map snd (reviews db)))"

definition mean_rating :: "int list \<Rightarrow> pyfloat" where
  "mean_rating rs =
     (if rs = [] then 0 else py_round2 (py_int_truediv (sum_list rs) (int (length rs))))"

definition rating_consistent :: "database \<Rightarrow> bool" where
  "rating_consistent db =
     list_all (\<lambda>(pid, p). average_rating p = mean_rating (ratings_of db pid)
                        \<and> review_count p = int (length (ratings_of db pid)))
       (products db)"

text \<open>
  Keys come from the counters: every key in use is at most its counter, and no key occurs
  twice. Every store built by the operations from \<open>empty_db\<close> is of this shape.
\<close>

definition keys_ok :: "database \<Rightarrow> bool" where
  "keys_ok db =
     (distinct (map fst (products db)) \<and> distinct (map fst (reviews db))
      \<and> list_all (\<lambda>k. k \<le> product_counter db) (map fst (products db))
      \<and> list_all (\<lambda>k. k \<le> review_counter db) (map fst (reviews db)))"

text \<open>
  A product carries the final price of its price and discount,
  \<open>round(price * (1 - discount_percentage / 100), 2)\<close>; a store is in sync when every product
  does.
\<close>

definition has_expected_final_price :: "product \<Rightarrow> bool" where
  "has_expected_final_price p =
     (case price p of
        None \<Rightarrow> False
      | Some pr \<Rightarrow>
          final_price p = py_round2 (py_mul pr (py_sub 1 (py_div (discount_percentage p) 100))))"

definition final_price_in_sync :: "database \<Rightarrow> bool" where
  "final_price_in_sync db =
     list_all (\<lambda>(pid, p). has_expected_final_price p) (products db)"

section \<open>Filter stage (routers/products.py)\<close>

text \<open>The keyword arguments of \<open>apply_filters\<close>; \<open>None\<close> is Python's \<open>None\<close> (or a missing key).\<close>

record filters =
  category_id_opt :: "int option"
  min_price_opt :: "pyfloat option"
  max_price_opt :: "pyfloat option"
  min_rating_opt :: "pyfloat option"
  stock_status_opt :: "string option"
  seller_id_opt :: "int option"
  has_discount_opt :: "bool option"

definition no_filters :: filters where
  "no_filters = \<lparr> category_id_opt = None, min_price_opt = None, max_price_opt = None,
                  min_rating_opt = None, stock_status_opt = None, seller_id_opt = None,
                  has_discount_opt = None \<rparr>"

text \<open>Python truthiness of an optional value: \<open>None\<close>, \<open>0\<close>, \<open>""\<close> and \<open>False\<close> are falsy.\<close>

definition truthy_int :: "int option \<Rightarrow> bool" where
  "truthy_int v = (case v of None \<Rightarrow> False | Some i \<Rightarrow> i \<noteq> 0)"

definition truthy_str :: "string option \<Rightarrow> bool" where
  "truthy_str v = (case v of None \<Rightarrow> False | Some s \<Rightarrow> s \<noteq> [])"

definition truthy_bool :: "bool option \<Rightarrow> bool" where
  "truthy_bool v = (case v of None \<Rightarrow> False | Some b \<Rightarrow> b)"

definition apply_filters :: "product list \<Rightarrow> filters \<Rightarrow> product list" where
  "apply_filters prods fl =
     (let result = prods;
          result = (if truthy_int (category_id_opt fl)
                    then filter (\<lambda>p. Some (category_id p) = category_id_opt fl) result
                    else result);
          result = (case min_price_opt fl of
                      Some lo \<Rightarrow> filter (\<lambda>p. final_price p \<ge> lo) result
                    | None \<Rightarrow> result);
          result = (case max_price_opt fl of
                      Some hi \<Rightarrow> filter (\<lambda>p. final_price p \<le> hi) result
                    | None \<Rightarrow> result);
          result = (case min_rating_opt fl of
                      Some r \<Rightarrow> filter (\<lambda>p. average_rating p \<ge> r) result
                    | None \<Rightarrow> result);
          result = (if truthy_str (stock_status_opt fl)
                    then filter (\<lambda>p. Some (stock_status p) = stock_status_opt fl) result
                    else result);
          result = (if truthy_int (seller_id_opt fl)
                    then filter (\<lambda>p. Some (seller_id p) = seller_id_opt fl) result
                    else result);
          result = (if truthy_bool (has_discount_opt fl)
                    then filter (\<lambda>p. discount_percentage p > 0) result
                    else result)
      in result)"

text \<open>
  The filter as the specification words it: a criterion constrains the result exactly when it
  is present.
\<close>

definition meets_present_criteria :: "filters \<Rightarrow> product \<Rightarrow> bool" where
  "meets_present_criteria fl p =
     ((case category_id_opt fl of None \<Rightarrow> True | Some c \<Rightarrow> category_id p = c)
      \<and> (case min_price_opt fl of None \<Rightarrow> True | Some lo \<Rightarrow> lo \<le> final_price p)
      \<and> (case max_price_opt fl of None \<Rightarrow> True | Some hi \<Rightarrow> final_price p \<le> hi)
      \<and> (case min_rating_opt fl of None \<Rightarrow> True | Some r \<Rightarrow> r \<le> average_rating p)
      \<and> (case stock_status_opt fl of None \<Rightarrow> True | Some s \<Rightarrow> stock_status p = s)
      \<and> (case seller_id_opt fl of None \<Rightarrow> True | Some s \<Rightarrow> seller_id p = s)
      \<and> (case has_discount_opt fl of Some True \<Rightarrow> 0 < discount_percentage p | _ \<Rightarrow> True))"

text \<open>
  The filter the code applies: an identifier criterion counts when it is present and not 0, a
  stock status when it is present and not the empty string.
\<close>

definition meets_effective_criteria :: "filters \<Rightarrow> product \<Rightarrow> bool" where
  "meets_effective_criteria fl p =
     ((case category_id_opt fl of None \<Rightarrow> True | Some c \<Rightarrow> c = 0 \<or> category_id p = c)
      \<and> (case min_price_opt fl of None \<Rightarrow> True | Some lo \<Rightarrow> lo \<le> final_price p)
      \<and> (case max_price_opt fl of None \<Rightarrow> True | Some hi \<Rightarrow> final_price p \<le> hi)
      \<and> (case min_rating_opt fl of None \<Rightarrow> True | Some r \<Rightarrow> r \<le> average_rating p)
      \<and> (case stock_status_opt fl of None \<Rightarrow> True | Some s \<Rightarrow> s = [] \<or> stock_status p = s)
      \<and> (case seller_id_opt fl of None \<Rightarrow> True | Some s \<Rightarrow> s = 0 \<or> seller_id p = s)
      \<and> (case has_discount_opt fl of Some True \<Rightarrow> 0 < discount_percentage p | _ \<Rightarrow> True))"

text \<open>One criterion at a time: the filters object that carries a single criterion of \<open>fl\<close>.\<close>

datatype criterion =
  Category_id | Min_price | Max_price | Min_rating | Stock_status | Seller_id | Has_discount

fun only :: "criterion \<Rightarrow> filters \<Rightarrow> filters" where
  "only Category_id fl = no_filters\<lparr> category_id_opt := category_id_opt fl \<rparr>"
| "only Min_price fl = no_filters\<lparr> min_price_opt := min_price_opt fl \<rparr>"
| "only Max_price fl = no_filters\<lparr> max_price_opt := max_price_opt fl \<rparr>"
| "only Min_rating fl = no_filters\<lparr> min_rating_opt := min_rating_opt fl \<rparr>"
| "only Stock_status fl = no_filters\<lparr> stock_status_opt := stock_status_opt fl \<rparr>"
| "only Seller_id fl = no_filters\<lparr> seller_id_opt := seller_id_opt fl \<rparr>"
| "only Has_discount fl = no_filters\<lparr> has_discount_opt := has_discount_opt fl \<rparr>"

fun is_present :: "filters \<Rightarrow> criterion \<Rightarrow> bool" where
  "is_present fl Category_id = (category_id_opt fl \<noteq> None)"
| "is_present fl Min_price = (min_price_opt fl \<noteq> None)"
| "is_present fl Max_price = (max_price_opt fl \<noteq> None)"
| "is_present fl Min_rating = (min_rating_opt fl \<noteq> None)"
| "is_present fl Stock_status = (stock_status_opt fl \<noteq> None)"
| "is_present fl Seller_id = (seller_id_opt fl \<noteq> None)"
| "is_present fl Has_discount = (has_discount_opt fl \<noteq> None)"

definition present_criteria :: "filters \<Rightarrow> criterion list" where
  "present_criteria fl =
     filter (is_present fl)
       [Category_id, Min_price, Max_price, Min_rating, Stock_status, Seller_id, Has_discount]"

definition filter_passes :: "product list \<Rightarrow> filters \<Rightarrow> criterion list \<Rightarrow> product list" where
  "filter_passes prods fl ks = foldl (\<lambda>ps k. apply_filters ps (only k fl)) prods ks"

section \<open>Sort stage (routers/products.py)\<close>

datatype SortOrder = ASC | DESC

datatype ProductSortBy = PRICE | RATING | NAME | CREATED_AT | DISCOUNT | REVIEW_COUNT

text \<open>
  \<open>str.lower\<close> is Python's own, driven by the Unicode case mapping; it is the parameter
  \<open>str_lower\<close> of the sort stage.
\<close>

definition apply_sorting ::
  "(string \<Rightarrow> string) \<Rightarrow> product list \<Rightarrow> ProductSortBy \<Rightarrow> SortOrder \<Rightarrow> product list" where
  "apply_sorting str_lower prods sort_by order =
     (let reverse = (order = DESC)
      in case sort_by of
           PRICE \<Rightarrow> py_sorted (\<lambda>p. final_price p) reverse prods
         | RATING \<Rightarrow> py_sorted (\<lambda>p. average_rating p) reverse prods
         | NAME \<Rightarrow> py_sorted (\<lambda>p. str_lower (name p)) reverse prods
         | CREATED_AT \<Rightarrow> py_sorted (\<lambda>p. created_at p) reverse prods
         | DISCOUNT \<Rightarrow> py_sorted (\<lambda>p. discount_percentage p) reverse prods
         | REVIEW_COUNT \<Rightarrow> py_sorted (\<lambda>p. review_count p) reverse prods)"

text \<open>Two products have the same sort key under \<open>sort_by\<close>.\<close>

fun same_key :: "(string \<Rightarrow> string) \<Rightarrow> ProductSortBy \<Rightarrow> product \<Rightarrow> product \<Rightarrow> bool" where
  "same_key str_lower PRICE p q = (final_price p = final_price q)"
| "same_key str_lower RATING p q = (average_rating p = average_rating q)"
| "same_key str_lower NAME p q = (str_lower (name p) = str_lower (name q))"
| "same_key str_lower CREATED_AT p q = (created_at p = created_at q)"
| "same_key str_lower DISCOUNT p q = (discount_percentage p = discount_percentage q)"
| "same_key str_lower REVIEW_COUNT p q = (review_count p = review_count q)"

section \<open>Recommendation engine (services/recommendation.py, routers/recommendations.py)\<close>

text \<open>
  \<open>calculate_score\<close>, in float arithmetic; \<open>product_price\<close> is the final price of the
  reference product.
\<close>

definition calculate_score :: "pyfloat \<Rightarrow> product \<Rightarrow> pyfloat" where
  "calculate_score product_price p =
     (let p_price = final_price p;
          rtg = average_rating p;
          price_score =
            (if binary64 product_price > 0
             then (let price_diff_ratio = py_div \<bar>py_sub p_price product_price\<bar> product_price
                   in py_mul (max 0 (py_sub 1 price_diff_ratio)) 2)
             else 0)
      in py_add rtg price_score)"

definition get_similar_products :: "database \<Rightarrow> int \<Rightarrow> int \<Rightarrow> bool \<Rightarrow> product list" where
  "get_similar_products db pid limit include_same_seller =
     (case get_product db pid of
        None \<Rightarrow> []
      | Some product \<Rightarrow>
          (let cid = category_id product;
               product_price = final_price product;
               sid = seller_id product;
               candidates = get_products_by_category db cid;
               candidates = filter (\<lambda>p. ident p \<noteq> pid) candidates;
               candidates = (if \<not> include_same_seller
                             then filter (\<lambda>p. seller_id p \<noteq> sid) candidates
                             else candidates);
               scored = map (\<lambda>p. (p, calculate_score product_price p)) candidates;
               scored = py_sorted snd True scored
           in map fst (py_slice_to scored limit)))"

definition get_price_range_products ::
  "database \<Rightarrow> pyfloat \<Rightarrow> pyfloat \<Rightarrow> int option \<Rightarrow> int \<Rightarrow> product list" where
  "get_price_range_products db min_price max_price cid_opt limit =
     (let prods = (case cid_opt of
                     Some cid \<Rightarrow> if cid \<noteq> 0 then get_products_by_category db cid
                                 else get_all_products db
                   | None \<Rightarrow> get_all_products db);
          prods = filter (\<lambda>p. min_price \<le> final_price p \<and> final_price p \<le> max_price) prods;
          prods = py_sorted (\<lambda>p. average_rating p) True prods
      in py_slice_to prods limit)"

text \<open>The route handler: the range check comes first and raises \<open>HTTPException\<close> 400.\<close>

datatype http_error = HTTPException int string

definition get_by_price_range ::
  "database \<Rightarrow> pyfloat \<Rightarrow> pyfloat \<Rightarrow> int option \<Rightarrow> int \<Rightarrow> http_error + product list" where
  "get_by_price_range db min_price max_price cid_opt limit =
     (if min_price > max_price
      then Inl (HTTPException 400 ''min_price cannot be greater than max_price.'')
      else Inr (get_price_range_products db min_price max_price cid_opt limit))"

text \<open>
  What the specification asks of a ranking: \<open>ys\<close> lists exactly the elements of \<open>xs\<close>, in
  descending order of \<open>score\<close>, elements of equal score in the order they have in \<open>xs\<close>.
\<close>

definition stable_desc_sort_of :: "('a \<Rightarrow> pyfloat) \<Rightarrow> 'a list \<Rightarrow> 'a list \<Rightarrow> bool" where
  "stable_desc_sort_of score xs ys =
     (mset ys = mset xs
      \<and> sorted_wrt (\<lambda>a b. score a \<ge> score b) ys
      \<and> (\<forall>v. filter (\<lambda>x. score x = v) ys = filter (\<lambda>x. score x = v) xs))"

text \<open>
  The score of the specification, relative to a reference final price, each operation being
  the float operation.
\<close>

definition similarity_score :: "pyfloat \<Rightarrow> product \<Rightarrow> pyfloat" where
  "similarity_score ref_price c =
     py_add (average_rating c)
       (if binary64 ref_price > 0
        then py_mul (max 0 (py_sub 1 (py_div \<bar>py_sub (final_price c) ref_price\<bar> ref_price))) 2
        else 0)"

section \<open>Sample data\<close>

text \<open>A product with the given key, category, seller, final price and average rating.\<close>

definition sample_product :: "int \<Rightarrow> int \<Rightarrow> int \<Rightarrow> pyfloat \<Rightarrow> pyfloat \<Rightarrow> product" where
  "sample_product i cid sid fp rtg =
     \<lparr> name = ''Item'', description = ''A sample item'', category_id = cid, seller_id = sid,
       price = Some fp, discount_percentage = 0, stock_status = ''in_stock'', features = [],
       images = [], ident = i, created_at = ''2024-01-01T00:00:00'',
       updated_at = ''2024-01-01T00:00:00'', average_rating = rtg, review_count = 0,
       final_price = fp \<rparr>"

text \<open>Caller data for a product with the given price and discount.\<close>

definition sample_data :: "pyfloat \<Rightarrow> pyfloat \<Rightarrow> product_data" where
  "sample_data pr disc =
     \<lparr> name = ''Item'', description = ''A sample item'', category_id = 1, seller_id = 1,
       price = Some pr, discount_percentage = disc, stock_status = ''in_stock'',
       features = [], images = [] \<rparr>"

text \<open>An update that sends only \<open>discount_percentage\<close>, and one that sends only a null price.\<close>

definition discount_only :: "pyfloat \<Rightarrow> product_update" where
  "discount_only disc =
     \<lparr> name_upd = None, description_upd = None, category_id_upd = None, price_upd = None,
       discount_percentage_upd = Some disc, stock_status_upd = None, features_upd = None,
       images_upd = None \<rparr>"

definition null_price :: product_update where
  "null_price =
     \<lparr> name_upd = None, description_upd = None, category_id_upd = None,
       price_upd = Some None, discount_percentage_upd = None, stock_status_upd = None,
       features_upd = None, images_upd = None \<rparr>"

text \<open>Caller data for a review of product \<open>pid\<close> with rating \<open>r\<close>.\<close>

definition rating_data :: "int \<Rightarrow> int \<Rightarrow> review_data" where
  "rating_data pid r =
     \<lparr> product_id = pid, user_id = 1, rating = r, title = ''Review'', comment = ''A comment'',
       pros = [], cons = [] \<rparr>"

text \<open>The empty store after one \<open>create_product\<close>, and three reviews of that product.\<close>

definition one_product_db :: database where
  "one_product_db =
     snd (create_product ''2024-01-01T10:00:00'' ''2024-01-01T10:00:01'' (sample_data 100 25)
            empty_db)"

definition three_reviews :: "store_op list" where
  "three_reviews =
     [Create_review ''2024-01-02T10:00:00'' (rating_data 1 5),
      Create_review ''2024-01-03T10:00:00'' (rating_data 1 5),
      Create_review ''2024-01-04T10:00:00'' (rating_data 1 4)]"

text \<open>
  A store snapshot: three products of category 1 from different sellers with final prices 100,
  130, 500 and ratings 4.0, 4.5, 5.0, a second product of the first seller, and a product of
  another category.
\<close>

definition shop_db :: database where
  "shop_db =
     \<lparr> products = [(1, sample_product 1 1 1 100 4),
                    (2, sample_product 2 1 2 130 (9 / 2)),
                    (3, sample_product 3 1 3 500 5),
                    (4, sample_product 4 1 1 100 5),
                    (5, sample_product 5 2 4 100 5)],
       reviews = [], product_counter = 5, review_counter = 0 \<rparr>"

text \<open>
  A store snapshot in which the scores of products 2 and 3 relative to product 1 are equal as
  exact numbers (3 + 2 * 0.9 and 3.2 + 2 * 0.8) and differ as floats (4.8 and
  4.800000000000001).
\<close>

definition tie_db :: database where
  "tie_db =
     \<lparr> products = [(1, sample_product 1 1 1 100 4),
                    (2, sample_product 2 1 2 90 3),
                    (3, sample_product 3 1 3 120 (16 / 5))],
       reviews = [], product_counter = 3, review_counter = 0 \<rparr>"

section \<open>Properties of the pagination stage\<close>

lemma py_slice_nonneg:
  "0 \<le> s \<Longrightarrow> 0 \<le> n \<Longrightarrow> py_slice xs s (s + n) = take (nat n) (drop (nat s) xs)"
  by (auto simp: py_slice_def py_slice_index_def Let_def min_def nat_add_distrib)

lemma py_slice_index_step:
  "0 \<le> d \<Longrightarrow> py_slice_index n (i + d) \<le> py_slice_index n i + nat d"
  unfolding py_slice_index_def by (auto simp: min_def max_def)

lemma length_py_slice: "0 \<le> n \<Longrightarrow> length (py_slice xs s (s + n)) \<le> nat n"
  using py_slice_index_step[of n "length xs" s]
  by (simp add: py_slice_def Let_def)

lemma total_pages_ceiling:
  assumes "0 < ps"
  shows "(t + ps - 1) div ps = \<lceil>(of_int t :: rat) / of_int ps\<rceil>"
proof -
  define q where "q = (t - 1) div ps"
  define r where "r = (t - 1) mod ps"
  have r: "0 \<le> r" "r < ps" using assms by (simp_all add: r_def)
  have t: "t - 1 = ps * q + r" by (simp add: q_def r_def)
  have "- t = ps * (- (q + 1)) + (ps - r - 1)" using t by (simp add: algebra_simps)
  then have "(- t) div ps = - (q + 1)"
    using r int_div_pos_eq[of "- t" ps "- (q + 1)" "ps - r - 1"] by simp
  moreover have "(t + ps - 1) div ps = q + 1"
  proof -
    have "t + ps - 1 = ps * (q + 1) + r" using t by (simp add: algebra_simps)
    then show ?thesis using r int_div_pos_eq[of "t + ps - 1" ps "q + 1" r] by simp
  qed
  ultimately show ?thesis by (simp add: ceiling_divide_eq_div)
qed

lemma total_pages_covers:
  assumes "0 < (ps::int)" "0 \<le> t"
  shows "t \<le> ((t + ps - 1) div ps) * ps" and "0 \<le> (t + ps - 1) div ps"
proof -
  have "(t + ps - 1) = ((t + ps - 1) div ps) * ps + (t + ps - 1) mod ps" by simp
  moreover have "(t + ps - 1) mod ps < ps" "0 \<le> (t + ps - 1) mod ps" using assms by simp_all
  ultimately show "t \<le> ((t + ps - 1) div ps) * ps" by linarith
  show "0 \<le> (t + ps - 1) div ps" using assms by (simp add: pos_imp_zdiv_nonneg_iff)
qed

lemma upto_as_map: "[1..int k] = map (\<lambda>i. int i + 1) [0..<k]"
  by (induction k) (auto simp: upto_rec2)

lemma concat_pages:
  "concat (map (\<lambda>i. take n (drop (i * n) xs)) [0..<k]) = take (k * n) xs"
proof (induction k)
  case 0 show ?case by simp
next
  case (Suc k)
  have "take (k * n) xs @ take n (drop (k * n) xs) = take (k * n + n) xs"
    by (simp add: take_add)
  with Suc show ?case by (simp add: add.commute)
qed

lemma items_paginate_nat:
  assumes "1 \<le> ps"
  shows "items (paginate xs (int i + 1) ps) = take (nat ps) (drop (i * nat ps) xs)"
proof -
  have "py_slice xs (int i * ps) (int i * ps + ps) = take (nat ps) (drop (nat (int i * ps)) xs)"
    using assms by (intro py_slice_nonneg) auto
  moreover have "nat (int i * ps) = i * nat ps" using assms by (simp add: nat_mult_distrib)
  ultimately show ?thesis by (simp add: paginate_def Let_def)
qed

lemma concat_all_pages:
  assumes "1 \<le> ps"
  shows "concat (map (\<lambda>q. items (paginate xs q ps)) [1..total_pages (paginate xs p ps)]) = xs"
proof -
  define tp where "tp = (int (length xs) + ps - 1) div ps"
  have tp: "total_pages (paginate xs p ps) = tp" using assms by (simp add: paginate_def Let_def tp_def)
  have tp0: "0 \<le> tp" and cov: "int (length xs) \<le> tp * ps"
    using total_pages_covers[of ps "int (length xs)"] assms by (simp_all add: tp_def)
  then obtain k where k: "tp = int k" using nonneg_int_cases by blast
  have "length xs \<le> k * nat ps"
  proof -
    have "int (length xs) \<le> int (k * nat ps)" using cov k assms by simp
    then show ?thesis by linarith
  qed
  then have "take (k * nat ps) xs = xs" by simp
  moreover have "concat (map (\<lambda>q. items (paginate xs q ps)) [1..int k])
      = concat (map (\<lambda>i. take (nat ps) (drop (i * nat ps) xs)) [0..<k])"
    using assms by (simp add: upto_as_map o_def items_paginate_nat)
  ultimately show ?thesis by (simp add: tp k concat_pages)
qed

text \<open>
  Claim C4. For every list and every page size of at least 1: the slice of any page has at
  most \<open>page_size\<close> items; the reported total is the length of the list and the number of
  pages is the ceiling of total over page size; and the slices of pages 1 to \<open>total_pages\<close>,
  concatenated in order, give back the list.
\<close>

theorem paginate_pages:
  assumes "1 \<le> ps"
  shows "int (length (items (paginate xs p ps))) \<le> ps
       \<and> total_items (paginate xs p ps) = int (length xs)
       \<and> total_pages (paginate xs p ps) = \<lceil>(of_nat (length xs) :: rat) / of_int ps\<rceil>
       \<and> concat (map (\<lambda>q. items (paginate xs q ps)) [1..total_pages (paginate xs p ps)]) = xs"
proof -
  have "length (items (paginate xs p ps)) \<le> nat ps"
    using assms length_py_slice[of ps xs "(p - 1) * ps"] by (simp add: paginate_def Let_def)
  then have a: "int (length (items (paginate xs p ps))) \<le> ps" using assms by linarith
  have b: "total_items (paginate xs p ps) = int (length xs)" by (simp add: paginate_def Let_def)
  have c: "total_pages (paginate xs p ps) = \<lceil>(of_nat (length xs) :: rat) / of_int ps\<rceil>"
    using assms total_pages_ceiling[of ps "int (length xs)"] by (simp add: paginate_def Let_def)
  show ?thesis using a b c concat_all_pages[OF assms] by blast
qed

theorem paginate_pages_witness:
  "(1::int) \<le> 2
   \<and> int (length (items (paginate [10, 20, 30, 40, 50 :: nat] 3 2))) \<le> 2
   \<and> total_items (paginate [10, 20, 30, 40, 50 :: nat] 3 2) = 5
   \<and> total_pages (paginate [10, 20, 30, 40, 50 :: nat] 3 2) = 3
   \<and> items (paginate [10, 20, 30, 40, 50 :: nat] 3 2) = [50]
   \<and> concat (map (\<lambda>q. items (paginate [10, 20, 30, 40, 50 :: nat] q 2)) [1..3])
       = [10, 20, 30, 40, 50]"
proof -
  have h: "(1::int) \<le> 2" by simp
  have tp: "total_pages (paginate [10, 20, 30, 40, 50 :: nat] 3 2) = 3"
    by (simp add: paginate_def Let_def)
  have it: "items (paginate [10, 20, 30, 40, 50 :: nat] 3 2) = [50]"
    by (simp add: paginate_def Let_def py_slice_def py_slice_index_def)
  show ?thesis
    using paginate_pages[OF h, of "[10, 20, 30, 40, 50 :: nat]" 3] tp it by simp
qed

text \<open>
  Claim C5. For a page size of at least 1 and a page beyond the last one (with at least one
  page), \<open>paginate\<close> returns an ordinary result: no items, the correct total and number of
  pages, no next page and a previous page. (\<open>paginate\<close> has no error branch at all.)
\<close>

theorem paginate_beyond_last_page:
  assumes "1 \<le> ps" and "1 \<le> total_pages (paginate xs p ps)"
    and "total_pages (paginate xs p ps) < p"
  shows "items (paginate xs p ps) = []
       \<and> total_items (paginate xs p ps) = int (length xs)
       \<and> total_pages (paginate xs p ps) = \<lceil>(of_nat (length xs) :: rat) / of_int ps\<rceil>
       \<and> \<not> has_next (paginate xs p ps)
       \<and> has_previous (paginate xs p ps)"
proof -
  define tp where "tp = (int (length xs) + ps - 1) div ps"
  have tp: "total_pages (paginate xs p ps) = tp"
    using assms(1) by (simp add: paginate_def Let_def tp_def)
  have cov: "int (length xs) \<le> tp * ps"
    using total_pages_covers[of ps "int (length xs)"] assms(1) by (simp add: tp_def)
  have "tp \<le> p - 1" using assms(3) tp by simp
  then have "tp * ps \<le> (p - 1) * ps" using assms(1) by (intro mult_right_mono) auto
  then have start: "int (length xs) \<le> (p - 1) * ps" using cov by linarith
  have nn: "0 \<le> (p - 1) * ps" using start by linarith
  have "py_slice xs ((p - 1) * ps) ((p - 1) * ps + ps) = take (nat ps) (drop (nat ((p - 1) * ps)) xs)"
    using nn assms(1) by (intro py_slice_nonneg) auto
  moreover have "length xs \<le> nat ((p - 1) * ps)" using start by linarith
  ultimately have a: "items (paginate xs p ps) = []" by (simp add: paginate_def Let_def)
  have b: "total_items (paginate xs p ps) = int (length xs)" by (simp add: paginate_def Let_def)
  have c: "total_pages (paginate xs p ps) = \<lceil>(of_nat (length xs) :: rat) / of_int ps\<rceil>"
    using assms(1) total_pages_ceiling[of ps "int (length xs)"] by (simp add: paginate_def Let_def)
  have d: "\<not> has_next (paginate xs p ps)" using assms(3) by (simp add: paginate_def Let_def)
  have e: "has_previous (paginate xs p ps)" using assms(2,3) by (simp add: paginate_def Let_def)
  show ?thesis using a b c d e by blast
qed

theorem paginate_beyond_last_page_witness:
  "(1::int) \<le> 2 \<and> 1 \<le> total_pages (paginate [10, 20, 30 :: nat] 5 2)
   \<and> total_pages (paginate [10, 20, 30 :: nat] 5 2) < 5
   \<and> paginate [10, 20, 30 :: nat] 5 2
       = \<lparr> items = [], total_items = 3, page = 5, page_size = 2, total_pages = 2,
           has_next = False, has_previous = True \<rparr>"
proof -
  have h1: "(1::int) \<le> 2" by simp
  have tp: "total_pages (paginate [10, 20, 30 :: nat] 5 2) = 2"
    by (simp add: paginate_def Let_def)
  have h2: "1 \<le> total_pages (paginate [10, 20, 30 :: nat] 5 2)" by (simp add: tp)
  have h3: "total_pages (paginate [10, 20, 30 :: nat] 5 2) < 5" by (simp add: tp)
  have pg: "page (paginate [10, 20, 30 :: nat] 5 2) = 5"
    and ps: "page_size (paginate [10, 20, 30 :: nat] 5 2) = 2"
    by (simp_all add: paginate_def Let_def)
  show ?thesis
    using paginate_beyond_last_page[OF h1 h2 h3] tp pg ps h1
    by (cases "paginate [10, 20, 30 :: nat] 5 2") simp
qed

section \<open>Properties of the filter stage\<close>

lemma if_filter: "(if b then filter f xs else xs) = filter (\<lambda>p. b \<longrightarrow> f p) xs"
  by simp

lemma case_filter:
  "(case v of Some a \<Rightarrow> filter (f a) xs | None \<Rightarrow> xs)
     = filter (\<lambda>p. case v of Some a \<Rightarrow> f a p | None \<Rightarrow> True) xs"
  by (cases v) simp_all

lemma apply_filters_eq: "apply_filters prods fl = filter (meets_effective_criteria fl) prods"
proof -
  have "apply_filters prods fl =
      filter (\<lambda>p. (truthy_int (category_id_opt fl) \<longrightarrow> Some (category_id p) = category_id_opt fl)
        \<and> (case min_price_opt fl of Some lo \<Rightarrow> final_price p \<ge> lo | None \<Rightarrow> True)
        \<and> (case max_price_opt fl of Some hi \<Rightarrow> final_price p \<le> hi | None \<Rightarrow> True)
        \<and> (case min_rating_opt fl of Some r \<Rightarrow> average_rating p \<ge> r | None \<Rightarrow> True)
        \<and> (truthy_str (stock_status_opt fl) \<longrightarrow> Some (stock_status p) = stock_status_opt fl)
        \<and> (truthy_int (seller_id_opt fl) \<longrightarrow> Some (seller_id p) = seller_id_opt fl)
        \<and> (truthy_bool (has_discount_opt fl) \<longrightarrow> discount_percentage p > 0)) prods"
    unfolding apply_filters_def Let_def if_filter case_filter filter_filter
    by (rule filter_cong) auto
  also have "\<dots> = filter (meets_effective_criteria fl) prods"
    by (rule filter_cong)
       (auto simp: meets_effective_criteria_def truthy_int_def truthy_str_def truthy_bool_def
             split: option.splits bool.splits)
  finally show ?thesis .
qed


text \<open>
  Claim C2 as stated, with every present criterion constraining the result, fails: a
  category criterion of 0 is present, no product of category 1 meets it, and the product is
  returned all the same.
\<close>

theorem apply_filters_presence_counterexample:
  "apply_filters [sample_product 1 1 1 100 4] (no_filters\<lparr> category_id_opt := Some 0 \<rparr>)
     \<noteq> filter (meets_present_criteria (no_filters\<lparr> category_id_opt := Some 0 \<rparr>))
         [sample_product 1 1 1 100 4]"
  by (simp add: apply_filters_def meets_present_criteria_def no_filters_def sample_product_def
        truthy_int_def truthy_str_def truthy_bool_def)

text \<open>
  Claim C2, amended. For every product list and every criteria assignment, \<open>apply_filters\<close>
  returns a subsequence of the list whose members are exactly the products that satisfy every
  effective criterion: category and seller equality when the identifier is present and not 0,
  final price within the inclusive bounds that are present, average rating at least the floor
  when present, stock status equality when present and not empty, a positive discount when
  \<open>has_discount\<close> is true. An absent criterion imposes no constraint.
\<close>

theorem apply_filters_effective:
  "apply_filters prods fl = filter (meets_effective_criteria fl) prods
   \<and> subseq (apply_filters prods fl) prods
   \<and> (\<forall>p. p \<in> set (apply_filters prods fl)
          \<longleftrightarrow> p \<in> set prods \<and> meets_effective_criteria fl p)"
  by (simp add: apply_filters_eq)

theorem apply_filters_effective_witness:
  "apply_filters [sample_product 1 1 1 100 4, sample_product 2 2 1 50 3]
       (no_filters\<lparr> category_id_opt := Some 2, max_price_opt := Some 60 \<rparr>)
     = [sample_product 2 2 1 50 3]
   \<and> meets_effective_criteria (no_filters\<lparr> category_id_opt := Some 2, max_price_opt := Some 60 \<rparr>)
       (sample_product 2 2 1 50 3)
   \<and> \<not> meets_effective_criteria (no_filters\<lparr> category_id_opt := Some 2, max_price_opt := Some 60 \<rparr>)
       (sample_product 1 1 1 100 4)"
proof -
  let ?fl = "no_filters\<lparr> category_id_opt := Some 2, max_price_opt := Some 60 \<rparr>"
  have a: "meets_effective_criteria ?fl (sample_product 2 2 1 50 3)"
    by (simp add: meets_effective_criteria_def no_filters_def sample_product_def)
  have b: "\<not> meets_effective_criteria ?fl (sample_product 1 1 1 100 4)"
    by (simp add: meets_effective_criteria_def no_filters_def sample_product_def)
  show ?thesis
    using apply_filters_effective[of "[sample_product 1 1 1 100 4, sample_product 2 2 1 50 3]" ?fl]
      a b by simp
qed

lemma foldl_filter:
  "foldl (\<lambda>ps k. filter (Q k) ps) xs ks = filter (\<lambda>p. \<forall>k\<in>set ks. Q k p) xs"
proof (induction ks arbitrary: xs)
  case Nil show ?case by simp
next
  case (Cons k ks)
  have "filter (\<lambda>p. \<forall>j\<in>set ks. Q j p) (filter (Q k) xs)
          = filter (\<lambda>p. \<forall>j\<in>set (k # ks). Q j p) xs"
    by (simp add: conj_commute)
  then show ?case by (simp add: Cons.IH)
qed

lemma filter_passes_eq:
  "filter_passes prods fl ks
     = filter (\<lambda>p. \<forall>k\<in>set ks. meets_effective_criteria (only k fl) p) prods"
  unfolding filter_passes_def apply_filters_eq by (rule foldl_filter)

lemma meets_only_absent:
  "\<not> is_present fl k \<Longrightarrow> meets_effective_criteria (only k fl) p"
  by (cases k) (simp_all add: meets_effective_criteria_def no_filters_def)

lemma meets_all_only:
  "meets_effective_criteria fl p \<longleftrightarrow> (\<forall>k. meets_effective_criteria (only k fl) p)"
proof
  assume h: "meets_effective_criteria fl p"
  show "\<forall>k. meets_effective_criteria (only k fl) p"
  proof
    fix k from h show "meets_effective_criteria (only k fl) p"
      by (cases k) (simp_all add: meets_effective_criteria_def no_filters_def)
  qed
next
  assume h: "\<forall>k. meets_effective_criteria (only k fl) p"
  have "meets_effective_criteria (only Category_id fl) p"
       "meets_effective_criteria (only Min_price fl) p"
       "meets_effective_criteria (only Max_price fl) p"
       "meets_effective_criteria (only Min_rating fl) p"
       "meets_effective_criteria (only Stock_status fl) p"
       "meets_effective_criteria (only Seller_id fl) p"
       "meets_effective_criteria (only Has_discount fl) p"
    using h by blast+
  then show "meets_effective_criteria fl p"
    by (simp add: meets_effective_criteria_def no_filters_def)
qed

lemma set_present_criteria: "set (present_criteria fl) = {k. is_present fl k}"
proof -
  have "set [Category_id, Min_price, Max_price, Min_rating, Stock_status, Seller_id, Has_discount]
          = UNIV"
  proof -
    have "k \<in> set [Category_id, Min_price, Max_price, Min_rating, Stock_status, Seller_id,
            Has_discount]" for k
      by (cases k) simp_all
    then show ?thesis by blast
  qed
  then show ?thesis unfolding present_criteria_def set_filter by simp
qed

text \<open>
  Claim C9. Applying the present criteria one at a time, as single-criterion passes in any
  order (\<open>ks\<close> lists the present criteria in any order, repetitions allowed), gives the same
  list as \<open>apply_filters\<close> with all criteria at once.
\<close>

theorem apply_filters_commutative:
  assumes "set ks = set (present_criteria fl)"
  shows "filter_passes prods fl ks = apply_filters prods fl"
proof -
  have "(\<forall>k\<in>set ks. meets_effective_criteria (only k fl) p) \<longleftrightarrow> meets_effective_criteria fl p"
    for p
    unfolding meets_all_only[of fl p] assms set_present_criteria
    using meets_only_absent[of fl _ p] by blast
  then show ?thesis by (simp add: filter_passes_eq apply_filters_eq)
qed


theorem apply_filters_commutative_witness:
  "set [Max_price, Category_id]
     = set (present_criteria (no_filters\<lparr> category_id_opt := Some 2, max_price_opt := Some 60 \<rparr>))
   \<and> filter_passes [sample_product 1 1 1 100 4, sample_product 2 2 1 50 3]
       (no_filters\<lparr> category_id_opt := Some 2, max_price_opt := Some 60 \<rparr>)
       [Max_price, Category_id]
     = apply_filters [sample_product 1 1 1 100 4, sample_product 2 2 1 50 3]
         (no_filters\<lparr> category_id_opt := Some 2, max_price_opt := Some 60 \<rparr>)"
proof -
  have h: "set [Max_price, Category_id]
     = set (present_criteria (no_filters\<lparr> category_id_opt := Some 2, max_price_opt := Some 60 \<rparr>))"
    by (auto simp: present_criteria_def no_filters_def)
  show ?thesis using h apply_filters_commutative[OF h] by simp
qed

text \<open>
  Claim C10. The category and seller criteria are tested by truthiness: a value of 0 behaves
  as an absent criterion whatever the other criteria are, and alone it returns the whole list.
  The price and rating bounds are tested for presence: a bound of 0 filters on 0. (Python's
  \<open>False\<close> is the integer 0 here.)
\<close>

theorem apply_filters_truthiness:
  "apply_filters prods (fl\<lparr> category_id_opt := Some 0 \<rparr>)
     = apply_filters prods (fl\<lparr> category_id_opt := None \<rparr>)
   \<and> apply_filters prods (fl\<lparr> seller_id_opt := Some 0 \<rparr>)
     = apply_filters prods (fl\<lparr> seller_id_opt := None \<rparr>)
   \<and> apply_filters prods (no_filters\<lparr> category_id_opt := Some 0 \<rparr>) = prods
   \<and> apply_filters prods (no_filters\<lparr> seller_id_opt := Some 0 \<rparr>) = prods
   \<and> apply_filters prods (no_filters\<lparr> min_price_opt := Some 0 \<rparr>)
     = filter (\<lambda>p. 0 \<le> final_price p) prods
   \<and> apply_filters prods (no_filters\<lparr> max_price_opt := Some 0 \<rparr>)
     = filter (\<lambda>p. final_price p \<le> 0) prods
   \<and> apply_filters prods (no_filters\<lparr> min_rating_opt := Some 0 \<rparr>)
     = filter (\<lambda>p. 0 \<le> average_rating p) prods
   \<and> apply_filters [sample_product 1 1 1 100 4] (no_filters\<lparr> max_price_opt := Some 0 \<rparr>) = []
   \<and> apply_filters [sample_product 1 1 1 100 4] (no_filters\<lparr> category_id_opt := Some 0 \<rparr>)
     = [sample_product 1 1 1 100 4]"
proof -
  have a: "apply_filters prods (fl\<lparr> category_id_opt := Some 0 \<rparr>)
     = apply_filters prods (fl\<lparr> category_id_opt := None \<rparr>)"
    unfolding apply_filters_eq
    by (rule filter_cong) (simp_all add: meets_effective_criteria_def)
  have b: "apply_filters prods (fl\<lparr> seller_id_opt := Some 0 \<rparr>)
     = apply_filters prods (fl\<lparr> seller_id_opt := None \<rparr>)"
    unfolding apply_filters_eq
    by (rule filter_cong) (simp_all add: meets_effective_criteria_def)
  have c: "apply_filters prods (no_filters\<lparr> category_id_opt := Some 0 \<rparr>) = prods"
    by (simp add: apply_filters_def no_filters_def truthy_int_def truthy_str_def truthy_bool_def)
  have d: "apply_filters prods (no_filters\<lparr> seller_id_opt := Some 0 \<rparr>) = prods"
    by (simp add: apply_filters_def no_filters_def truthy_int_def truthy_str_def truthy_bool_def)
  have e: "apply_filters prods (no_filters\<lparr> min_price_opt := Some 0 \<rparr>)
     = filter (\<lambda>p. 0 \<le> final_price p) prods"
    by (simp add: apply_filters_def no_filters_def truthy_int_def truthy_str_def truthy_bool_def)
  have f: "apply_filters prods (no_filters\<lparr> max_price_opt := Some 0 \<rparr>)
     = filter (\<lambda>p. final_price p \<le> 0) prods"
    by (simp add: apply_filters_def no_filters_def truthy_int_def truthy_str_def truthy_bool_def)
  have g: "apply_filters prods (no_filters\<lparr> min_rating_opt := Some 0 \<rparr>)
     = filter (\<lambda>p. 0 \<le> average_rating p) prods"
    by (simp add: apply_filters_def no_filters_def truthy_int_def truthy_str_def truthy_bool_def)
  have h: "apply_filters [sample_product 1 1 1 100 4] (no_filters\<lparr> max_price_opt := Some 0 \<rparr>)
     = []"
    by (simp add: apply_filters_def no_filters_def truthy_int_def truthy_str_def truthy_bool_def
          sample_product_def)
  have i: "apply_filters [sample_product 1 1 1 100 4]
      (no_filters\<lparr> category_id_opt := Some 0 \<rparr>) = [sample_product 1 1 1 100 4]"
    by (simp add: apply_filters_def no_filters_def truthy_int_def truthy_str_def truthy_bool_def)
  show ?thesis using a b c d e f g h i by blast
qed

section \<open>Properties of the sort stage\<close>

lemma py_sorted_stable:
  "filter (\<lambda>x. k x = v) (py_sorted k r xs) = filter (\<lambda>x. k x = v) xs"
proof (cases r)
  case True
  have "filter (\<lambda>x. k x = v) (rev (sort_key k (rev xs)))
          = rev (filter (\<lambda>x. k x = v) (sort_key k (rev xs)))"
    by (simp add: rev_filter)
  also have "\<dots> = rev (filter (\<lambda>x. k x = v) (rev xs))" by (simp only: sort_key_stable)
  also have "\<dots> = filter (\<lambda>x. k x = v) xs" by (simp add: rev_filter)
  finally show ?thesis using True by (simp add: py_sorted_def)
next
  case False
  then show ?thesis by (simp add: py_sorted_def sort_key_stable)
qed

lemma py_sorted_stable_pred:
  assumes "\<And>x. sk x = (v = k x)"
  shows "filter sk (py_sorted k r xs) = filter sk xs"
proof -
  have "sk = (\<lambda>x. k x = v)" using assms by auto
  then show ?thesis by (simp only: py_sorted_stable)
qed

text \<open>
  Claim C3. \<open>apply_sorting\<close> is stable for every sort key and both directions: for any
  product \<open>q\<close>, the products whose key equals that of \<open>q\<close> appear in the output in the order
  they have in the input. The name key is \<open>str_lower (name p)\<close> for whatever function
  \<open>str.lower\<close> is.
\<close>

theorem apply_sorting_stable:
  "filter (same_key str_lower sort_by q) (apply_sorting str_lower prods sort_by order)
     = filter (same_key str_lower sort_by q) prods"
proof (cases sort_by)
  case PRICE
  show ?thesis unfolding PRICE apply_sorting_def Let_def ProductSortBy.case
    by (rule py_sorted_stable_pred[where v = "final_price q"]) simp
next
  case RATING
  show ?thesis unfolding RATING apply_sorting_def Let_def ProductSortBy.case
    by (rule py_sorted_stable_pred[where v = "average_rating q"]) simp
next
  case NAME
  show ?thesis unfolding NAME apply_sorting_def Let_def ProductSortBy.case
    by (rule py_sorted_stable_pred[where v = "str_lower (name q)"]) simp
next
  case CREATED_AT
  show ?thesis unfolding CREATED_AT apply_sorting_def Let_def ProductSortBy.case
    by (rule py_sorted_stable_pred[where v = "created_at q"]) simp
next
  case DISCOUNT
  show ?thesis unfolding DISCOUNT apply_sorting_def Let_def ProductSortBy.case
    by (rule py_sorted_stable_pred[where v = "discount_percentage q"]) simp
next
  case REVIEW_COUNT
  show ?thesis unfolding REVIEW_COUNT apply_sorting_def Let_def ProductSortBy.case
    by (rule py_sorted_stable_pred[where v = "review_count q"]) simp
qed

theorem apply_sorting_stable_witness:
  "filter (same_key (\<lambda>s. s) RATING (sample_product 1 1 1 100 4))
     (apply_sorting (\<lambda>s. s)
        [sample_product 1 1 1 100 4, sample_product 2 1 2 50 5, sample_product 3 1 3 70 4]
        RATING DESC)
   = [sample_product 1 1 1 100 4, sample_product 3 1 3 70 4]"
  using apply_sorting_stable[of "\<lambda>s. s" RATING "sample_product 1 1 1 100 4"
      "[sample_product 1 1 1 100 4, sample_product 2 1 2 50 5, sample_product 3 1 3 70 4]" DESC]
  by (simp add: sample_product_def)

lemma sample_sorted_desc:
  "apply_sorting str_lower
     [sample_product 1 1 1 100 4, sample_product 2 1 2 50 5, sample_product 3 1 3 70 4]
     RATING DESC
   = [sample_product 2 1 2 50 5, sample_product 1 1 1 100 4, sample_product 3 1 3 70 4]"
  by (simp add: apply_sorting_def py_sorted_def sample_product_def)

section \<open>Properties of the entity store\<close>

lemma set_alist_update:
  "(k', v') \<in> set (AList.update k v al) \<Longrightarrow> (k', v') = (k, v) \<or> (k', v') \<in> set al"
  by (induction al) (auto split: if_splits)

lemma alist_delete_filter: "AList.delete k al = filter (\<lambda>e. fst e \<noteq> k) al"
  by (induction al) auto

lemma in_sync_iff:
  "final_price_in_sync db
     \<longleftrightarrow> (\<forall>k p. (k, p) \<in> set (products db) \<longrightarrow> has_expected_final_price p)"
  by (auto simp: final_price_in_sync_def list_all_iff)

text \<open>
  With numbers for price and discount, \<open>create_product\<close> and \<open>update_product\<close> store the
  final price of the stored price and discount.
\<close>

lemma create_product_final_price:
  assumes "price pd = Some pr"
  shows "\<exists>p. fst (create_product now1 now2 pd db) = Inr p
           \<and> get_product (snd (create_product now1 now2 pd db)) (product_counter db + 1) = Some p
           \<and> price p = Some pr \<and> discount_percentage p = discount_percentage pd
           \<and> final_price p
               = py_round2 (py_mul pr (py_sub 1 (py_div (discount_percentage pd) 100)))"
  using assms by (simp add: create_product_def get_product_def Let_def update_conv')

lemma update_product_final_price:
  assumes "get_product db pid = Some p0"
    and "price (dict_update u p0) = Some pr"
  shows "\<exists>q. fst (update_product now pid u db) = Inr (Some q)
           \<and> get_product (snd (update_product now pid u db)) pid = Some q
           \<and> price q = Some pr
           \<and> discount_percentage q = discount_percentage (dict_update u p0)
           \<and> final_price q
               = py_round2 (py_mul pr (py_sub 1 (py_div (discount_percentage q) 100)))"
  using assms by (simp add: update_product_def get_product_def Let_def update_conv')

lemma in_sync_update:
  assumes "final_price_in_sync db" and "has_expected_final_price p"
    and "products db' = AList.update k p (products db)"
  shows "final_price_in_sync db'"
  unfolding in_sync_iff
proof (intro allI impI)
  fix j q assume "(j, q) \<in> set (products db')"
  then have "(j, q) = (k, p) \<or> (j, q) \<in> set (products db)"
    using assms(3) set_alist_update[of j q k p "products db"] by simp
  then show "has_expected_final_price q"
    using assms(1,2) by (auto simp: in_sync_iff)
qed

lemma has_expected_final_price_rating [simp]:
  "has_expected_final_price (p\<lparr> average_rating := a, review_count := c \<rparr>)
     = has_expected_final_price p"
  by (cases "price p") (simp_all add: has_expected_final_price_def)

lemma create_product_in_sync:
  assumes "final_price_in_sync db"
  shows "final_price_in_sync (snd (create_product now1 now2 pd db))"
proof (cases "price pd")
  case None
  then show ?thesis using assms by (simp add: create_product_def Let_def in_sync_iff)
next
  case (Some pr)
  show ?thesis
    by (rule in_sync_update[OF assms, where k = "product_counter db + 1"
          and p = "projr (fst (create_product now1 now2 pd db))"])
       (simp_all add: Some create_product_def Let_def has_expected_final_price_def)
qed

lemma update_product_in_sync:
  assumes "final_price_in_sync db" and "fst (update_product now pid u db) = Inr r"
  shows "final_price_in_sync (snd (update_product now pid u db))"
proof (cases "map_of (products db) pid")
  case None
  then show ?thesis using assms(1) by (simp add: update_product_def)
next
  case (Some p0)
  then obtain pr where pr: "price (dict_update u p0) = Some pr"
    using assms(2) by (cases "price (dict_update u p0)") (simp_all add: update_product_def Let_def)
  show ?thesis
    by (rule in_sync_update[OF assms(1), where k = pid
          and p = "the (projr (fst (update_product now pid u db)))"])
       (simp_all add: Some pr update_product_def Let_def has_expected_final_price_def)
qed

lemma delete_product_in_sync:
  "final_price_in_sync db \<Longrightarrow> final_price_in_sync (snd (delete_product pid db))"
  unfolding in_sync_iff
  by (auto simp: delete_product_def alist_delete_filter)

lemma update_product_rating_in_sync:
  assumes "final_price_in_sync db"
  shows "final_price_in_sync (update_product_rating pid db)"
proof (cases "map_of (products db) pid")
  case None
  then show ?thesis using assms by (simp add: update_product_rating_def)
next
  case (Some p)
  then have "(pid, p) \<in> set (products db)" by (rule map_of_SomeD)
  then have e: "has_expected_final_price p"
    using assms by (auto simp: in_sync_iff)
  obtain a c where
    "products (update_product_rating pid db)
       = AList.update pid (p\<lparr> average_rating := a, review_count := c \<rparr>) (products db)"
    using Some
    by (cases "filter (\<lambda>r. product_id r = pid) (map snd (reviews db)) = []")
       (simp_all add: update_product_rating_def Let_def)
  then show ?thesis
    using in_sync_update[OF assms, of "p\<lparr> average_rating := a, review_count := c \<rparr>"] e
    by simp
qed

lemma create_review_in_sync:
  assumes "final_price_in_sync db"
  shows "final_price_in_sync (snd (create_review now rd db))"
proof -
  have "final_price_in_sync (db\<lparr> review_counter := c, reviews := rs \<rparr>)" for c rs
    using assms by (simp add: final_price_in_sync_def)
  then show ?thesis
    by (simp add: create_review_def Let_def update_product_rating_in_sync)
qed

text \<open>The final prices Python computes: 75.0, 50.0, 14.99 and 74.93.\<close>

lemma final_price_examples:
  "py_round2 (py_mul 100 (py_sub 1 (py_div 25 100))) = 75"
  "py_round2 (py_mul 100 (py_sub 1 (py_div 50 100))) = 50"
  "py_round2 (py_mul (2999 / 100) (py_sub 1 (py_div 50 100))) = 1499 / 100"
  "py_round2 (py_mul (999 / 10) (py_sub 1 (py_div 25 100))) = 7493 / 100"
  by code_simp+

lemma one_product_db_product:
  "get_product one_product_db 1
     = Some \<lparr> name = ''Item'', description = ''A sample item'', category_id = 1, seller_id = 1,
              price = Some 100, discount_percentage = 25, stock_status = ''in_stock'',
              features = [], images = [], ident = 1, created_at = ''2024-01-01T10:00:00'',
              updated_at = ''2024-01-01T10:00:01'', average_rating = 0, review_count = 0,
              final_price = 75 \<rparr>"
  by (simp add: one_product_db_def create_product_def sample_data_def empty_db_def
        get_product_def Let_def final_price_examples(1))

lemma update_discount_only:
  "fst (update_product ''2024-01-02T10:00:00'' 1 (discount_only 50) one_product_db)
     = Inr (Some \<lparr> name = ''Item'', description = ''A sample item'', category_id = 1,
                    seller_id = 1, price = Some 100, discount_percentage = 50,
                    stock_status = ''in_stock'', features = [], images = [], ident = 1,
                    created_at = ''2024-01-01T10:00:00'', updated_at = ''2024-01-02T10:00:00'',
                    average_rating = 0, review_count = 0, final_price = 50 \<rparr>)"
  using one_product_db_product
  by (simp add: update_product_def get_product_def dict_update_def discount_only_def Let_def
        final_price_examples(2))

text \<open>
  Claim C6 fails on the code. On the store that holds one product with price 100, discount 25
  and final price 75, \<open>update_product\<close> with a null price raises \<open>TypeError\<close>; the store then
  holds the product with price \<open>None\<close> and the final price 75 it had before: the final price
  was not recomputed and the store is out of sync.
\<close>

theorem update_product_null_price:
  "final_price_in_sync one_product_db
   \<and> fst (update_product ''2024-01-02T10:00:00'' 1 null_price one_product_db) = Inl TypeError
   \<and> get_product (snd (update_product ''2024-01-02T10:00:00'' 1 null_price one_product_db)) 1
       = Some \<lparr> name = ''Item'', description = ''A sample item'', category_id = 1,
                seller_id = 1, price = None, discount_percentage = 25,
                stock_status = ''in_stock'', features = [], images = [], ident = 1,
                created_at = ''2024-01-01T10:00:00'', updated_at = ''2024-01-02T10:00:00'',
                average_rating = 0, review_count = 0, final_price = 75 \<rparr>
   \<and> \<not> final_price_in_sync
         (snd (update_product ''2024-01-02T10:00:00'' 1 null_price one_product_db))"
proof -
  have g: "map_of (products one_product_db) 1
     = Some \<lparr> name = ''Item'', description = ''A sample item'', category_id = 1, seller_id = 1,
              price = Some 100, discount_percentage = 25, stock_status = ''in_stock'',
              features = [], images = [], ident = 1, created_at = ''2024-01-01T10:00:00'',
              updated_at = ''2024-01-01T10:00:01'', average_rating = 0, review_count = 0,
              final_price = 75 \<rparr>"
    using one_product_db_product by (simp add: get_product_def)
  have ps: "products one_product_db
     = [(1, \<lparr> name = ''Item'', description = ''A sample item'', category_id = 1, seller_id = 1,
              price = Some 100, discount_percentage = 25, stock_status = ''in_stock'',
              features = [], images = [], ident = 1, created_at = ''2024-01-01T10:00:00'',
              updated_at = ''2024-01-01T10:00:01'', average_rating = 0, review_count = 0,
              final_price = 75 \<rparr>)]"
    by (simp add: one_product_db_def create_product_def sample_data_def empty_db_def Let_def
          final_price_examples(1))
  have a: "final_price_in_sync one_product_db"
    by (simp add: final_price_in_sync_def ps has_expected_final_price_def final_price_examples(1))
  have b: "fst (update_product ''2024-01-02T10:00:00'' 1 null_price one_product_db)
      = Inl TypeError"
    by (simp add: update_product_def g dict_update_def null_price_def Let_def)
  have c: "products (snd (update_product ''2024-01-02T10:00:00'' 1 null_price one_product_db))
      = [(1, \<lparr> name = ''Item'', description = ''A sample item'', category_id = 1,
                seller_id = 1, price = None, discount_percentage = 25,
                stock_status = ''in_stock'', features = [], images = [], ident = 1,
                created_at = ''2024-01-01T10:00:00'', updated_at = ''2024-01-02T10:00:00'',
                average_rating = 0, review_count = 0, final_price = 75 \<rparr>)]"
    by (simp add: update_product_def g dict_update_def null_price_def Let_def ps)
  have d: "\<not> final_price_in_sync
         (snd (update_product ''2024-01-02T10:00:00'' 1 null_price one_product_db))"
    by (simp add: final_price_in_sync_def c has_expected_final_price_def)
  show ?thesis using a b d by (simp add: get_product_def c)
qed

section \<open>Properties of the rating aggregate\<close>

lemma alist_update_fresh: "k \<notin> fst ` set al \<Longrightarrow> AList.update k v al = al @ [(k, v)]"
  by (induction al) auto

lemma set_alist_update_distinct:
  "distinct (map fst al) \<Longrightarrow> (k', v') \<in> set (AList.update k v al)
     \<Longrightarrow> (k' = k \<and> v' = v) \<or> (k' \<noteq> k \<and> (k', v') \<in> set al)"
  by (induction al) (force split: if_splits)+

lemma rating_consistent_iff:
  "rating_consistent db \<longleftrightarrow>
     (\<forall>k p. (k, p) \<in> set (products db) \<longrightarrow>
        average_rating p = mean_rating (ratings_of db k)
        \<and> review_count p = int (length (ratings_of db k)))"
  by (auto simp: rating_consistent_def list_all_iff)

lemma keys_ok_update_product_rating:
  "keys_ok db \<Longrightarrow> keys_ok (update_product_rating pid db)"
proof (cases "map_of (products db) pid")
  case None
  assume "keys_ok db" then show ?thesis using None by (simp add: update_product_rating_def)
next
  case (Some p)
  assume k: "keys_ok db"
  from Some have "pid \<in> set (map fst (products db))"
    by (metis map_of_eq_None_iff option.distinct(1) set_map)
  then have "map fst (AList.update pid v (products db)) = map fst (products db)" for v
    by (simp add: update_keys)
  then show ?thesis using k Some
    by (simp add: update_product_rating_def Let_def keys_ok_def)
qed

lemma keys_ok_create_review:
  assumes "keys_ok db"
  shows "keys_ok (snd (create_review now rd db))"
proof -
  let ?rid = "review_counter db + 1"
  have le: "\<forall>k\<in>set (map fst (reviews db)). k \<le> review_counter db"
    using assms by (simp add: keys_ok_def list_all_iff)
  then have fresh: "?rid \<notin> fst ` set (reviews db)" by auto
  have "keys_ok (db\<lparr> review_counter := ?rid, reviews := AList.update ?rid rv (reviews db) \<rparr>)"
    for rv
    using assms le fresh
    by (auto simp: keys_ok_def alist_update_fresh list_all_iff)
  then show ?thesis
    by (simp add: create_review_def Let_def keys_ok_update_product_rating)
qed

lemma keys_ok_delete_product:
  assumes "keys_ok db"
  shows "keys_ok (snd (delete_product pid db))"
  using assms
  by (auto simp: delete_product_def keys_ok_def list_all_iff alist_delete_filter
        distinct_map_filter)

lemma ratings_of_products_upd [simp]:
  "ratings_of (db\<lparr> products := ps \<rparr>) k = ratings_of db k"
  by (simp add: ratings_of_def)

lemma update_product_rating_consistent:
  assumes d: "distinct (map fst (products db))"
    and others: "\<And>k p. (k, p) \<in> set (products db) \<Longrightarrow> k \<noteq> pid \<Longrightarrow>
        average_rating p = mean_rating (ratings_of db k)
        \<and> review_count p = int (length (ratings_of db k))"
  shows "rating_consistent (update_product_rating pid db)"
proof (cases "map_of (products db) pid")
  case None
  then have "k \<noteq> pid" if "(k, p) \<in> set (products db)" for k p
    using that by (metis weak_map_of_SomeI option.distinct(1))
  then show ?thesis using None others
    by (auto simp: update_product_rating_def rating_consistent_iff)
next
  case (Some p0)
  define rs where "rs = filter (\<lambda>r. product_id r = pid) (map snd (reviews db))"
  let ?p1 = "if rs \<noteq> []
    then p0\<lparr> average_rating :=
               py_round2 (py_int_truediv (sum_list (map rating rs)) (int (length rs))),
            review_count := int (length rs) \<rparr>
    else p0\<lparr> average_rating := 0, review_count := 0 \<rparr>"
  have upd: "update_product_rating pid db = db\<lparr> products := AList.update pid ?p1 (products db) \<rparr>"
    using Some by (simp add: update_product_rating_def Let_def rs_def)
  have rt: "ratings_of db pid = map rating rs" by (simp add: ratings_of_def rs_def)
  have new: "average_rating ?p1 = mean_rating (ratings_of db pid)
      \<and> review_count ?p1 = int (length (ratings_of db pid))"
    unfolding rt by (simp add: mean_rating_def)
  show ?thesis
    unfolding upd rating_consistent_iff
  proof (intro allI impI)
    fix k p assume "(k, p) \<in> set (products (db\<lparr> products := AList.update pid ?p1 (products db) \<rparr>))"
    then have "(k, p) \<in> set (AList.update pid ?p1 (products db))" by simp
    from set_alist_update_distinct[OF d this]
    show "average_rating p = mean_rating (ratings_of (db\<lparr> products := AList.update pid ?p1 (products db) \<rparr>) k)
        \<and> review_count p = int (length (ratings_of (db\<lparr> products := AList.update pid ?p1 (products db) \<rparr>) k))"
      using new others by auto
  qed
qed

lemma create_review_consistent:
  assumes k: "keys_ok db" and c: "rating_consistent db"
  shows "rating_consistent (snd (create_review now rd db))"
proof -
  let ?rid = "review_counter db + 1"
  let ?rv = "\<lparr> product_id = product_id rd, user_id = user_id rd, rating = rating rd,
                 title = title rd, comment = comment rd, pros = pros rd, cons = cons rd,
                 review_ident = ?rid, review_created_at = now, helpful_count = 0 \<rparr>"
  let ?db1 = "db\<lparr> review_counter := ?rid, reviews := AList.update ?rid ?rv (reviews db) \<rparr>"
  have "\<forall>j\<in>set (map fst (reviews db)). j \<le> review_counter db"
    using k by (simp add: keys_ok_def list_all_iff)
  then have fresh: "?rid \<notin> fst ` set (reviews db)" by auto
  have rs: "reviews ?db1 = reviews db @ [(?rid, ?rv)]"
    using fresh by (simp add: alist_update_fresh)
  have same: "ratings_of ?db1 j = ratings_of db j" if "j \<noteq> product_id rd" for j
    using that by (simp add: ratings_of_def rs)
  have d: "distinct (map fst (products ?db1))" using k by (simp add: keys_ok_def)
  have "rating_consistent (update_product_rating (product_id rd) ?db1)"
  proof (rule update_product_rating_consistent[OF d])
    fix j p assume "(j, p) \<in> set (products ?db1)" "j \<noteq> product_id rd"
    then show "average_rating p = mean_rating (ratings_of ?db1 j)
        \<and> review_count p = int (length (ratings_of ?db1 j))"
      using c same[of j] by (simp add: rating_consistent_iff)
  qed
  then show ?thesis by (simp add: create_review_def Let_def)
qed

lemma filter_other_product:
  "j \<noteq> pid \<Longrightarrow>
     filter (\<lambda>r. product_id r = j) (map snd (filter (\<lambda>(k, v). product_id v \<noteq> pid) al))
       = filter (\<lambda>r. product_id r = j) (map snd al)"
  by (induction al) auto

lemma delete_product_consistent:
  assumes c: "rating_consistent db"
  shows "rating_consistent (snd (delete_product pid db))"
proof (cases "map_of (products db) pid \<noteq> None")
  case False
  then show ?thesis using c by (simp add: delete_product_def)
next
  case True
  let ?db1 = "db\<lparr> products := AList.delete pid (products db),
                  reviews := filter (\<lambda>(k, v). product_id v \<noteq> pid) (reviews db) \<rparr>"
  have same: "ratings_of ?db1 j = ratings_of db j" if "j \<noteq> pid" for j
    using that by (simp add: ratings_of_def filter_other_product)
  have "rating_consistent ?db1"
    unfolding rating_consistent_iff
  proof (intro allI impI)
    fix j p assume "(j, p) \<in> set (products ?db1)"
    then have "j \<noteq> pid" "(j, p) \<in> set (products db)"
      by (auto simp: alist_delete_filter)
    then show "average_rating p = mean_rating (ratings_of ?db1 j)
        \<and> review_count p = int (length (ratings_of ?db1 j))"
      using c same[of j] by (simp add: rating_consistent_iff)
  qed
  then show ?thesis using True by (simp add: delete_product_def)
qed

lemma run_ops_consistent:
  "keys_ok db \<Longrightarrow> rating_consistent db
     \<Longrightarrow> keys_ok (run_ops ops db) \<and> rating_consistent (run_ops ops db)"
proof (induction ops arbitrary: db)
  case Nil then show ?case by simp
next
  case (Cons opn ops)
  have "keys_ok (run_op opn db) \<and> rating_consistent (run_op opn db)"
    using Cons.prems
    by (cases opn)
       (simp_all add: keys_ok_create_review keys_ok_delete_product create_review_consistent
          delete_product_consistent)
  then show ?case using Cons.IH by simp
qed

text \<open>
  Claim C7. Start from a store whose keys come from its counters and whose products carry the
  aggregate of their reviews (the empty store, or products without reviews). After any sequence
  of \<open>create_review\<close> and \<open>delete_product\<close> calls, every product in the store has as
  \<open>average_rating\<close> the mean rating of the reviews that reference it, rounded to two decimals
  as Python's \<open>round\<close> does on the float mean (0 without reviews), and as \<open>review_count\<close>
  their number.
\<close>

theorem rating_aggregate_invariant:
  assumes "keys_ok db" and "rating_consistent db"
    and "get_product (run_ops ops db) pid = Some p"
  shows "average_rating p = mean_rating (ratings_of (run_ops ops db) pid)
       \<and> review_count p = int (length (ratings_of (run_ops ops db) pid))
       \<and> rating_consistent (run_ops ops db) \<and> keys_ok (run_ops ops db)"
proof -
  have "(pid, p) \<in> set (products (run_ops ops db))"
    using assms(3) by (simp add: get_product_def map_of_SomeD)
  then show ?thesis
    using run_ops_consistent[OF assms(1,2), of ops] by (simp add: rating_consistent_iff)
qed


lemma products_update_product_rating_keys:
  "map fst (products (update_product_rating pid db)) = map fst (products db)"
proof (cases "map_of (products db) pid")
  case None then show ?thesis by (simp add: update_product_rating_def)
next
  case (Some p)
  then have "pid \<in> set (map fst (products db))"
    by (metis map_of_eq_None_iff option.distinct(1) set_map)
  then show ?thesis using Some by (simp add: update_product_rating_def Let_def update_keys)
qed

lemma reviews_create_review:
  "reviews (snd (create_review now rd db))
     = AList.update (review_counter db + 1)
         \<lparr> product_id = product_id rd, user_id = user_id rd, rating = rating rd,
           title = title rd, comment = comment rd, pros = pros rd, cons = cons rd,
           review_ident = review_counter db + 1, review_created_at = now, helpful_count = 0 \<rparr>
         (reviews db)"
  and review_counter_create_review:
    "review_counter (snd (create_review now rd db)) = review_counter db + 1"
  and product_keys_create_review:
    "map fst (products (snd (create_review now rd db))) = map fst (products db)"
proof -
  have a: "reviews (update_product_rating pid d) = reviews d"
    "review_counter (update_product_rating pid d) = review_counter d" for pid d
    by (simp_all add: update_product_rating_def Let_def split: option.splits)
  show "reviews (snd (create_review now rd db))
     = AList.update (review_counter db + 1)
         \<lparr> product_id = product_id rd, user_id = user_id rd, rating = rating rd,
           title = title rd, comment = comment rd, pros = pros rd, cons = cons rd,
           review_ident = review_counter db + 1, review_created_at = now, helpful_count = 0 \<rparr>
         (reviews db)"
    by (simp add: create_review_def Let_def a)
  show "review_counter (snd (create_review now rd db)) = review_counter db + 1"
    by (simp add: create_review_def Let_def a)
  show "map fst (products (snd (create_review now rd db))) = map fst (products db)"
    by (simp add: create_review_def Let_def products_update_product_rating_keys)
qed

text \<open>
  The means Python stores: 4.67 for the ratings 5, 5, 4, and 4.03 for forty ratings that sum to
  161 (the double nearest to 4.025 lies above it).
\<close>

lemma mean_rating_examples:
  "mean_rating [5, 5, 4] = 467 / 100"
  "mean_rating (replicate 39 4 @ [5]) = 403 / 100"
  "mean_rating [4, 5, 4, 4, 4, 4, 4, 4] = 412 / 100"
  by code_simp+

theorem rating_aggregate_invariant_witness:
  "keys_ok one_product_db \<and> rating_consistent one_product_db
   \<and> (case get_product one_product_db 1 of
         None \<Rightarrow> False | Some p \<Rightarrow> average_rating p = 0 \<and> review_count p = 0)
   \<and> (case get_product (run_ops three_reviews one_product_db) 1 of
         None \<Rightarrow> False
       | Some p \<Rightarrow> average_rating p = 467 / 100 \<and> review_count p = 3)
   \<and> mean_rating (replicate 39 4 @ [5]) = 403 / 100"
proof -
  have ps: "map fst (products one_product_db) = [1]" "reviews one_product_db = []"
    "review_counter one_product_db = 0" "product_counter one_product_db = 1"
    by (simp_all add: one_product_db_def create_product_def sample_data_def Let_def
          empty_db_def)
  have h1: "keys_ok one_product_db" by (simp add: keys_ok_def ps)
  have h2: "rating_consistent one_product_db"
    by (simp add: rating_consistent_def ratings_of_def mean_rating_def one_product_db_def
          create_product_def sample_data_def Let_def empty_db_def)
  have fresh: "case get_product one_product_db 1 of
         None \<Rightarrow> False | Some p \<Rightarrow> average_rating p = 0 \<and> review_count p = 0"
    by (simp add: one_product_db_product)
  let ?final = "run_ops three_reviews one_product_db"
  have keys: "map fst (products ?final) = [1]"
    by (simp add: three_reviews_def product_keys_create_review ps)
  have rs: "ratings_of ?final 1 = [5, 5, 4]"
    by (simp add: three_reviews_def ratings_of_def reviews_create_review
          review_counter_create_review ps rating_data_def)
  from keys obtain p where p: "get_product ?final 1 = Some p"
    unfolding get_product_def
    by (metis list.set_intros(1) map_of_eq_None_iff not_None_eq set_map)
  from rating_aggregate_invariant[OF h1 h2 p]
  have "average_rating p = 467 / 100 \<and> review_count p = 3"
    by (simp add: rs mean_rating_examples(1))
  then show ?thesis using h1 h2 fresh p mean_rating_examples(2) by simp
qed

section \<open>Properties of the recommendation engine\<close>

lemma sample_product_sel:
  "ident (sample_product i cid sid fp rtg) = i"
  "category_id (sample_product i cid sid fp rtg) = cid"
  "seller_id (sample_product i cid sid fp rtg) = sid"
  "final_price (sample_product i cid sid fp rtg) = fp"
  "average_rating (sample_product i cid sid fp rtg) = rtg"
  by (simp_all add: sample_product_def)

lemma py_slice_to_nonneg: "0 \<le> n \<Longrightarrow> py_slice_to xs n = take (nat n) xs"
  by (simp add: py_slice_to_def py_slice_index_def min_def)

lemma py_sorted_desc:
  "stable_desc_sort_of score xs (py_sorted score True xs)"
proof -
  have "sorted_wrt (\<lambda>a b. score a \<le> score b) (sort_key score (rev xs))"
    using sorted_sort_key[of score "rev xs"] by (simp add: sorted_map)
  then have "sorted_wrt (\<lambda>a b. score b \<le> score a) (rev (sort_key score (rev xs)))"
    by (simp add: sorted_wrt_rev)
  then show ?thesis
    unfolding stable_desc_sort_of_def
    using py_sorted_stable[of score _ True xs]
    by (simp add: py_sorted_def)
qed

lemma insort_key_scored:
  "insort_key snd (x, f x) (map (\<lambda>p. (p, f p)) ys) = map (\<lambda>p. (p, f p)) (insort_key f x ys)"
  by (induction ys) auto

lemma sort_key_scored:
  "sort_key snd (map (\<lambda>p. (p, f p)) xs) = map (\<lambda>p. (p, f p)) (sort_key f xs)"
  by (induction xs) (auto simp: insort_key_scored)

lemma py_sorted_scored:
  "map fst (py_slice_to (py_sorted snd r (map (\<lambda>p. (p, f p)) xs)) n)
     = py_slice_to (py_sorted f r xs) n"
proof -
  have "py_sorted snd r (map (\<lambda>p. (p, f p)) xs) = map (\<lambda>p. (p, f p)) (py_sorted f r xs)"
    by (simp add: py_sorted_def sort_key_scored rev_map)
  then show ?thesis by (simp add: py_slice_to_def take_map o_def)
qed

lemma calculate_score_eq: "calculate_score r p = similarity_score r p"
  by (simp add: calculate_score_def similarity_score_def Let_def)

text \<open>
  Claim C1. \<open>get_similar_products\<close> returns the empty list when the product id does not
  resolve. Otherwise it returns a prefix (\<open>scored[:limit]\<close>) of a ranking of the candidates,
  for a limit of at least 0 the first \<open>limit\<close> elements: the candidates are the products of
  the reference product's category, without the product of that id and, unless
  \<open>include_same_seller\<close>, without the products of its seller; they are ranked in descending
  order of score, equal scores in store order. The score is the average rating plus
  \<open>max(0, 1 - |candidate final price - reference final price| / reference final price) * 2\<close>
  when the reference final price is positive, plus 0 otherwise, in float arithmetic.
\<close>

theorem similar_products_ranking:
  "(get_product db pid = None \<longrightarrow> get_similar_products db pid limit include_same_seller = [])
   \<and> (\<forall>product. get_product db pid = Some product \<longrightarrow>
        (\<exists>ranked k.
           stable_desc_sort_of (similarity_score (final_price product))
             (filter (\<lambda>c. category_id c = category_id product \<and> ident c \<noteq> pid
                        \<and> (include_same_seller \<or> seller_id c \<noteq> seller_id product))
                (get_all_products db))
             ranked
           \<and> get_similar_products db pid limit include_same_seller = take k ranked
           \<and> (0 \<le> limit \<longrightarrow> take k ranked = take (nat limit) ranked)))"
proof (intro conjI impI allI)
  assume "get_product db pid = None"
  then show "get_similar_products db pid limit include_same_seller = []"
    by (simp add: get_similar_products_def)
next
  fix product assume h: "get_product db pid = Some product"
  let ?cands = "filter (\<lambda>c. category_id c = category_id product \<and> ident c \<noteq> pid
                        \<and> (include_same_seller \<or> seller_id c \<noteq> seller_id product))
                (get_all_products db)"
  let ?score = "similarity_score (final_price product)"
  let ?ranked = "py_sorted ?score True ?cands"
  let ?k = "py_slice_index (length ?ranked) limit"
  have cs: "calculate_score (final_price product) = ?score"
    by (rule ext) (rule calculate_score_eq)
  have cands: "(if \<not> include_same_seller
        then filter (\<lambda>p. seller_id p \<noteq> seller_id product)
               (filter (\<lambda>p. ident p \<noteq> pid) (get_products_by_category db (category_id product)))
        else filter (\<lambda>p. ident p \<noteq> pid) (get_products_by_category db (category_id product)))
      = ?cands"
    by (auto simp: get_products_by_category_def get_all_products_def intro!: filter_cong)
  have "get_similar_products db pid limit include_same_seller = py_slice_to ?ranked limit"
    using h unfolding get_similar_products_def Let_def
    by (simp only: option.case cands py_sorted_scored cs)
  then have r: "get_similar_products db pid limit include_same_seller = take ?k ?ranked"
    by (simp add: py_slice_to_def)
  have l: "0 \<le> limit \<longrightarrow> take ?k ?ranked = take (nat limit) ?ranked"
    using py_slice_to_nonneg[of limit ?ranked] by (simp add: py_slice_to_def)
  show "\<exists>ranked k. stable_desc_sort_of ?score ?cands ranked
           \<and> get_similar_products db pid limit include_same_seller = take k ranked
           \<and> (0 \<le> limit \<longrightarrow> take k ranked = take (nat limit) ranked)"
    using py_sorted_desc[of ?score ?cands] r l by blast
qed

text \<open>
  The scores Python computes relative to a final price of 100: 5.9, 5.0 and 7.0 on \<open>shop_db\<close>,
  where the product priced 130 ranks above the one priced 500 despite its lower rating; 4.8 and
  4.800000000000001 on \<open>tie_db\<close>, where product 3 ranks above product 2.
\<close>

lemma score_expr:
  "calculate_score r (sample_product i cid sid fp rtg)
     = py_add rtg
         (if binary64 r > 0 then py_mul (max 0 (py_sub 1 (py_div \<bar>py_sub fp r\<bar> r))) 2 else 0)"
  by (simp add: calculate_score_def Let_def sample_product_sel)

lemma score_values:
  "calculate_score 100 (sample_product 2 1 2 130 (9 / 2)) = 3321404725185741 / 562949953421312"
  "calculate_score 100 (sample_product 3 1 3 500 5) = 5"
  "calculate_score 100 (sample_product 4 1 1 100 5) = 7"
  "calculate_score 100 (sample_product 2 1 2 90 3) = 5404319552844595 / 1125899906842624"
  "calculate_score 100 (sample_product 3 1 3 120 (16 / 5)) = 1351079888211149 / 281474976710656"
  unfolding score_expr by code_simp+

lemma shop_similar:
  "get_similar_products shop_db 1 2 False
     = [sample_product 2 1 2 130 (9 / 2), sample_product 3 1 3 500 5]"
  "get_similar_products shop_db 1 2 True
     = [sample_product 4 1 1 100 5, sample_product 2 1 2 130 (9 / 2)]"
  "get_similar_products shop_db 99 2 False = []"
  "get_similar_products tie_db 1 5 False
     = [sample_product 3 1 3 120 (16 / 5), sample_product 2 1 2 90 3]"
  by (simp_all add: get_similar_products_def get_product_def get_products_by_category_def
        shop_db_def tie_db_def sample_product_sel score_values py_sorted_def py_slice_to_def
        py_slice_index_def Let_def)

theorem similar_products_ranking_witness:
  "get_product shop_db 99 = None
   \<and> get_similar_products shop_db 99 2 False = []
   \<and> get_product shop_db 1 = Some (sample_product 1 1 1 100 4) \<and> (0::int) \<le> 2
   \<and> get_similar_products shop_db 1 2 False
       = [sample_product 2 1 2 130 (9 / 2), sample_product 3 1 3 500 5]
   \<and> (\<exists>ranked.
         stable_desc_sort_of (similarity_score 100)
           [sample_product 2 1 2 130 (9 / 2), sample_product 3 1 3 500 5] ranked
         \<and> get_similar_products shop_db 1 2 False = take 2 ranked)
   \<and> get_similar_products tie_db 1 5 False
       = [sample_product 3 1 3 120 (16 / 5), sample_product 2 1 2 90 3]"
proof -
  have n: "get_product shop_db 99 = None" by (simp add: get_product_def shop_db_def)
  have g: "get_product shop_db 1 = Some (sample_product 1 1 1 100 4)"
    by (simp add: get_product_def shop_db_def)
  have z: "(0::int) \<le> 2" by simp
  have c: "filter (\<lambda>c. category_id c = category_id (sample_product 1 1 1 100 4) \<and> ident c \<noteq> 1
                        \<and> (False \<or> seller_id c \<noteq> seller_id (sample_product 1 1 1 100 4)))
                (get_all_products shop_db)
           = [sample_product 2 1 2 130 (9 / 2), sample_product 3 1 3 500 5]"
    by (simp add: get_all_products_def shop_db_def sample_product_sel)
  have f: "final_price (sample_product 1 1 1 100 4) = 100" by (simp add: sample_product_sel)
  have e: "get_similar_products shop_db 99 2 False = []"
    using similar_products_ranking[of shop_db 99 2 False] n by blast
  have "\<exists>ranked k.
         stable_desc_sort_of (similarity_score (final_price (sample_product 1 1 1 100 4)))
           (filter (\<lambda>c. category_id c = category_id (sample_product 1 1 1 100 4) \<and> ident c \<noteq> 1
                        \<and> (False \<or> seller_id c \<noteq> seller_id (sample_product 1 1 1 100 4)))
                (get_all_products shop_db)) ranked
         \<and> get_similar_products shop_db 1 2 False = take k ranked
         \<and> (0 \<le> (2::int) \<longrightarrow> take k ranked = take (nat 2) ranked)"
    using similar_products_ranking[of shop_db 1 2 False] g by blast
  then have "\<exists>ranked.
         stable_desc_sort_of (similarity_score 100)
           [sample_product 2 1 2 130 (9 / 2), sample_product 3 1 3 500 5] ranked
         \<and> get_similar_products shop_db 1 2 False = take 2 ranked"
    unfolding c f using z by auto
  then show ?thesis using n g z e shop_similar(1) shop_similar(4) by blast
qed

lemma in_range_take:
  "\<forall>p\<in>set (take n (py_sorted k r (filter P xs))). P p"
proof -
  have "set (py_sorted k r (filter P xs)) = set (filter P xs)"
    by (simp add: py_sorted_def)
  then show ?thesis using set_take_subset[of n "py_sorted k r (filter P xs)"] by auto
qed

text \<open>
  Claim C8. With \<open>min_price > max_price\<close> the route returns the invalid-range error whatever
  the store holds: the result does not depend on the store. With \<open>min_price \<le> max_price\<close> it
  returns a prefix of the products in scope whose final price lies in the inclusive range,
  ranked by average rating in descending order, equal ratings in store order; for a limit of at
  least 0 the prefix is the first \<open>limit\<close> elements.
\<close>

theorem price_range_query:
  "(max_price < min_price \<longrightarrow>
      get_by_price_range db min_price max_price cid_opt limit
        = Inl (HTTPException 400 ''min_price cannot be greater than max_price.''))
   \<and> (min_price \<le> max_price \<longrightarrow>
        (\<exists>ranked k.
           stable_desc_sort_of (\<lambda>p. average_rating p)
             (filter (\<lambda>p. min_price \<le> final_price p \<and> final_price p \<le> max_price)
                (case cid_opt of
                   Some cid \<Rightarrow> if cid \<noteq> 0 then get_products_by_category db cid
                               else get_all_products db
                 | None \<Rightarrow> get_all_products db))
             ranked
           \<and> get_by_price_range db min_price max_price cid_opt limit = Inr (take k ranked)
           \<and> (0 \<le> limit \<longrightarrow> take k ranked = take (nat limit) ranked)
           \<and> (\<forall>p\<in>set (take k ranked).
                 min_price \<le> final_price p \<and> final_price p \<le> max_price)
           \<and> sorted_wrt (\<lambda>a b. average_rating a \<ge> average_rating b) (take k ranked)))"
proof (intro conjI impI)
  assume "max_price < min_price"
  then show "get_by_price_range db min_price max_price cid_opt limit
        = Inl (HTTPException 400 ''min_price cannot be greater than max_price.'')"
    by (simp add: get_by_price_range_def)
next
  assume h: "min_price \<le> max_price"
  let ?scope = "case cid_opt of
                   Some cid \<Rightarrow> if cid \<noteq> 0 then get_products_by_category db cid
                               else get_all_products db
                 | None \<Rightarrow> get_all_products db"
  let ?inr = "filter (\<lambda>p. min_price \<le> final_price p \<and> final_price p \<le> max_price) ?scope"
  let ?ranked = "py_sorted (\<lambda>p. average_rating p) True ?inr"
  let ?k = "py_slice_index (length ?ranked) limit"
  have r: "get_by_price_range db min_price max_price cid_opt limit = Inr (take ?k ?ranked)"
    using h by (simp add: get_by_price_range_def get_price_range_products_def Let_def
        py_slice_to_def)
  have s: "stable_desc_sort_of (\<lambda>p. average_rating p) ?inr ?ranked" by (rule py_sorted_desc)
  then have "sorted_wrt (\<lambda>a b. average_rating a \<ge> average_rating b) ?ranked"
    by (simp add: stable_desc_sort_of_def)
  then have t: "sorted_wrt (\<lambda>a b. average_rating a \<ge> average_rating b) (take ?k ?ranked)"
    by (rule sorted_wrt_take)
  have m: "\<forall>p\<in>set (take ?k ?ranked).
      min_price \<le> final_price p \<and> final_price p \<le> max_price"
    by (rule in_range_take)
  have l: "0 \<le> limit \<longrightarrow> take ?k ?ranked = take (nat limit) ?ranked"
    using py_slice_to_nonneg[of limit ?ranked] by (simp add: py_slice_to_def)
  show "\<exists>ranked k.
           stable_desc_sort_of (\<lambda>p. average_rating p) ?inr ranked
           \<and> get_by_price_range db min_price max_price cid_opt limit = Inr (take k ranked)
           \<and> (0 \<le> limit \<longrightarrow> take k ranked = take (nat limit) ranked)
           \<and> (\<forall>p\<in>set (take k ranked).
                 min_price \<le> final_price p \<and> final_price p \<le> max_price)
           \<and> sorted_wrt (\<lambda>a b. average_rating a \<ge> average_rating b) (take k ranked)"
    using r s t m l by blast
qed

lemma shop_price_range:
  "get_by_price_range shop_db 100 200 None 2
     = Inr [sample_product 4 1 1 100 5, sample_product 5 2 4 100 5]"
  "get_by_price_range shop_db 100 200 (Some 1) 10
     = Inr [sample_product 4 1 1 100 5, sample_product 2 1 2 130 (9 / 2),
            sample_product 1 1 1 100 4]"
  by (simp_all add: get_by_price_range_def get_price_range_products_def get_all_products_def
        get_products_by_category_def shop_db_def sample_product_sel py_sorted_def
        py_slice_to_def py_slice_index_def Let_def)

theorem price_range_query_witness:
  "(100::pyfloat) < 500
   \<and> get_by_price_range shop_db 500 100 None 10
       = Inl (HTTPException 400 ''min_price cannot be greater than max_price.'')
   \<and> get_by_price_range empty_db 500 100 None 10 = get_by_price_range shop_db 500 100 None 10
   \<and> (100::pyfloat) \<le> 200 \<and> (0::int) \<le> 2
   \<and> get_by_price_range shop_db 100 200 None 2
       = Inr [sample_product 4 1 1 100 5, sample_product 5 2 4 100 5]
   \<and> (\<exists>ranked. get_by_price_range shop_db 100 200 None 2 = Inr (take 2 ranked))"
proof -
  have h1: "(100::pyfloat) < 500" by simp
  have h2: "(100::pyfloat) \<le> 200" and h3: "(0::int) \<le> 2" by simp_all
  have a: "get_by_price_range shop_db 500 100 None 10
       = Inl (HTTPException 400 ''min_price cannot be greater than max_price.'')"
    using price_range_query[of 100 500 shop_db None 10] h1 by blast
  have b: "get_by_price_range empty_db 500 100 None 10
       = Inl (HTTPException 400 ''min_price cannot be greater than max_price.'')"
    using price_range_query[of 100 500 empty_db None 10] h1 by blast
  obtain ranked k where
    "get_by_price_range shop_db 100 200 None 2 = Inr (take k ranked)"
    "0 \<le> (2::int) \<longrightarrow> take k ranked = take (nat 2) ranked"
    using price_range_query[of 200 100 shop_db None 2] h2 by blast
  then have c: "\<exists>ranked. get_by_price_range shop_db 100 200 None 2 = Inr (take 2 ranked)"
    using h3 by auto
  show ?thesis using h1 h2 h3 a b c shop_price_range(1) by simp
qed

end
